theory Spec2Isabelle
  imports Main "HOL-Library.Sublist"
begin

section \<open>JavaScript values and the built-in operations the SDK relies on\<close>

text \<open>
  The SDK (\<^verbatim>\<open>src/index.js\<close>) works on plain JavaScript data: a commit is an object
  literal, its payload is an object with string, array and object fields. The values
  below are the JSON-like fragment of JavaScript together with \<^verbatim>\<open>undefined\<close>, which
  is what reading a missing property gives. Objects are association lists of own
  enumerable data properties (a key is bound once; were it repeated, every operation
  reads its first binding); there are no functions, symbols, getters or prototypes other
  than the standard ones.
  Numbers are the integer-valued Numbers; strings are sequences of code units below 256,
  so that \<^verbatim>\<open>length\<close> counts exactly what JavaScript counts.
\<close>

datatype jsval =
    JUndefined
  | JNull
  | JBool bool
  | JNum int
  | JStr string
  | JArr "jsval list"
  | JObj "(string \<times> jsval) list"

text \<open>The exceptions the code can raise: the engine's \<^verbatim>\<open>TypeError\<close> and
  \<^verbatim>\<open>RangeError\<close>, and \<^verbatim>\<open>new Error(msg)\<close> thrown by the SDK itself.\<close>

datatype error = TypeError | RangeError | Error string

definition bindE :: "error + 'a \<Rightarrow> ('a \<Rightarrow> error + 'b) \<Rightarrow> error + 'b" where
  "bindE m f = (case m of Inl e \<Rightarrow> Inl e | Inr x \<Rightarrow> f x)"

subsection \<open>Number to string\<close>

definition digit_char :: "nat \<Rightarrow> char" where
  "digit_char d = ''0123456789'' ! d"

function decimal :: "nat \<Rightarrow> string" where
  "decimal n = (if n < 10 then [digit_char n] else decimal (n div 10) @ [digit_char (n mod 10)])"
  by pat_completeness auto
termination
  by (relation "measure id") auto

declare decimal.simps [simp del]

text \<open>\<^verbatim>\<open>Number.prototype.toString\<close> on an integer of magnitude below \<open>10^21\<close> (above
  that JavaScript switches to exponent notation, which is not modelled).\<close>

definition number_to_string :: "int \<Rightarrow> string" where
  "number_to_string n = (if n < 0 then ''-'' @ decimal (nat (- n)) else decimal (nat n))"

subsection \<open>ToString, as applied by a template literal\<close>

text \<open>
  \<^verbatim>\<open>`${v}`\<close> applies ToString to \<open>v\<close>. For an array this is
  \<^verbatim>\<open>Array.prototype.join\<close> with a comma, where \<^verbatim>\<open>undefined\<close> and \<^verbatim>\<open>null\<close>
  elements print as the empty string. For a plain object it is
  \<^verbatim>\<open>Object.prototype.toString\<close>, that is the constant \<^verbatim>\<open>[object Object]\<close>, unless
  the object carries an own property \<^verbatim>\<open>toString\<close>: that property shadows the method of
  the prototype, it is not callable (there are no function values here), the inherited
  \<^verbatim>\<open>valueOf\<close> returns the object itself, and the conversion throws a TypeError.
\<close>

fun js_toString :: "jsval \<Rightarrow> error + string"
  and js_join :: "jsval list \<Rightarrow> error + string" where
  "js_toString JUndefined = Inr ''undefined''"
| "js_toString JNull = Inr ''null''"
| "js_toString (JBool b) = Inr (if b then ''true'' else ''false'')"
| "js_toString (JNum n) = Inr (number_to_string n)"
| "js_toString (JStr s) = Inr s"
| "js_toString (JArr xs) = js_join xs"
| "js_toString (JObj kvs) =
     (if ''toString'' \<in> set (map fst kvs) then Inl TypeError else Inr ''[object Object]'')"
| "js_join [] = Inr []"
| "js_join (x # xs) =
     bindE (if x = JUndefined \<or> x = JNull then Inr [] else js_toString x) (\<lambda>s.
       if xs = [] then Inr s else bindE (js_join xs) (\<lambda>r. Inr (s @ '','' @ r)))"

subsection \<open>Own properties, property reads and method calls\<close>

text \<open>The names of the own properties of a value (of its wrapper object, for a
  primitive): the keys of an object; the indices and \<^verbatim>\<open>length\<close> of an array or string.\<close>

definition own_property_names :: "jsval \<Rightarrow> string list" where
  "own_property_names v = (case v of
      JObj kvs \<Rightarrow> remdups (map fst kvs)
    | JArr xs \<Rightarrow> map decimal [0..<length xs] @ [''length'']
    | JStr s \<Rightarrow> map decimal [0..<length s] @ [''length'']
    | _ \<Rightarrow> [])"

text \<open>\<^verbatim>\<open>Object.keys(v).length\<close>: the number of own enumerable properties
  (\<^verbatim>\<open>length\<close> of an array or string is not enumerable). \<^verbatim>\<open>Object.keys\<close> throws
  on \<^verbatim>\<open>undefined\<close> and \<^verbatim>\<open>null\<close>.\<close>

definition Object_keys_length :: "jsval \<Rightarrow> error + nat" where
  "Object_keys_length v = (case v of
      JUndefined \<Rightarrow> Inl TypeError
    | JNull \<Rightarrow> Inl TypeError
    | JObj kvs \<Rightarrow> Inr (length (remdups (map fst kvs)))
    | JArr xs \<Rightarrow> Inr (length xs)
    | JStr s \<Rightarrow> Inr (length s)
    | _ \<Rightarrow> Inr 0)"

text \<open>
  The method call \<^verbatim>\<open>v.hasOwnProperty(k)\<close>. Reading a property of \<^verbatim>\<open>undefined\<close> or
  \<^verbatim>\<open>null\<close> throws a TypeError. On an object that has an own property named
  \<^verbatim>\<open>hasOwnProperty\<close> the call reaches that property instead of the method of
  \<^verbatim>\<open>Object.prototype\<close>; it is not a function, so the call throws a TypeError too.
\<close>

definition call_hasOwnProperty :: "jsval \<Rightarrow> string \<Rightarrow> error + bool" where
  "call_hasOwnProperty v k = (case v of
      JUndefined \<Rightarrow> Inl TypeError
    | JNull \<Rightarrow> Inl TypeError
    | JObj kvs \<Rightarrow>
        if ''hasOwnProperty'' \<in> set (map fst kvs) then Inl TypeError
        else Inr (k \<in> set (map fst kvs))
    | _ \<Rightarrow> Inr (k \<in> set (own_property_names v)))"

text \<open>
  The property read \<^verbatim>\<open>v.k\<close>, for the property names the SDK reads (\<^verbatim>\<open>data\<close>,
  \<^verbatim>\<open>type\<close>, \<^verbatim>\<open>hashtags\<close>, \<^verbatim>\<open>hashTags\<close>, \<^verbatim>\<open>attachments\<close>, \<^verbatim>\<open>length\<close>,
  \<^verbatim>\<open>commitAt\<close>, \<^verbatim>\<open>nonce\<close>, \<^verbatim>\<open>signature\<close>, \<^verbatim>\<open>publicKey\<close>): none of them is
  defined on a standard prototype except \<^verbatim>\<open>length\<close>, so a name that is not an own
  property reads as \<^verbatim>\<open>undefined\<close>.
\<close>

definition get_prop :: "jsval \<Rightarrow> string \<Rightarrow> error + jsval" where
  "get_prop v k = (case v of
      JUndefined \<Rightarrow> Inl TypeError
    | JNull \<Rightarrow> Inl TypeError
    | JObj kvs \<Rightarrow> Inr (case map_of kvs k of Some x \<Rightarrow> x | None \<Rightarrow> JUndefined)
    | JArr xs \<Rightarrow>
        Inr (if k = ''length'' then JNum (int (length xs))
             else case find (\<lambda>i. decimal i = k) [0..<length xs] of
                    Some i \<Rightarrow> xs ! i | None \<Rightarrow> JUndefined)
    | JStr s \<Rightarrow>
        Inr (if k = ''length'' then JNum (int (length s))
             else case find (\<lambda>i. decimal i = k) [0..<length s] of
                    Some i \<Rightarrow> JStr [s ! i] | None \<Rightarrow> JUndefined)
    | _ \<Rightarrow> Inr JUndefined)"

text \<open>
  The comparison \<^verbatim>\<open>v > 0\<close>. The operand is converted to a number: \<^verbatim>\<open>undefined\<close>
  becomes NaN (the comparison is false), \<^verbatim>\<open>null\<close> becomes 0, a boolean 0 or 1; an array
  or object is first converted to a string as above. Whether a string denotes a number
  above zero is decided by the engine's string-to-number conversion, which is not part
  of the SDK: it is the parameter \<open>positive\<close>.
\<close>

definition js_gt_zero :: "(string \<Rightarrow> bool) \<Rightarrow> jsval \<Rightarrow> error + bool" where
  "js_gt_zero positive v = (case v of
      JUndefined \<Rightarrow> Inr False
    | JNull \<Rightarrow> Inr False
    | JBool b \<Rightarrow> Inr b
    | JNum n \<Rightarrow> Inr (0 < n)
    | JStr s \<Rightarrow> Inr (positive s)
    | _ \<Rightarrow> bindE (js_toString v) (\<lambda>s. Inr (positive s)))"

text \<open>
  \<^verbatim>\<open>a.forEach(callback)\<close>: defined on arrays only; on every other value that can be
  reached here the property \<^verbatim>\<open>forEach\<close> is \<^verbatim>\<open>undefined\<close> or not a function and the
  call throws a TypeError. The callback is run on each element in order, threading the
  variables it assigns (\<open>'s\<close>); \<^bold>\<open>the value a callback returns is discarded\<close>, and only an
  exception stops the iteration. The callback returns its result value paired with the
  state.
\<close>

fun forEach_list :: "(jsval \<Rightarrow> 's \<Rightarrow> error + (jsval \<times> 's)) \<Rightarrow> jsval list \<Rightarrow> 's \<Rightarrow> error + 's" where
  "forEach_list callback [] st = Inr st"
| "forEach_list callback (element # rest) st =
     bindE (callback element st) (\<lambda>(returned, st'). forEach_list callback rest st')"

definition call_forEach :: "jsval \<Rightarrow> (jsval \<Rightarrow> 's \<Rightarrow> error + (jsval \<times> 's)) \<Rightarrow> 's \<Rightarrow> error + 's" where
  "call_forEach a callback st = (case a of
      JArr xs \<Rightarrow> forEach_list callback xs st
    | _ \<Rightarrow> Inl TypeError)"

text \<open>\<^verbatim>\<open>a.every(callback)\<close>: arrays only, stops at the first element on which the
  callback returns false.\<close>

fun every_list :: "(jsval \<Rightarrow> error + bool) \<Rightarrow> jsval list \<Rightarrow> error + bool" where
  "every_list callback [] = Inr True"
| "every_list callback (element # rest) =
     bindE (callback element) (\<lambda>b. if b then every_list callback rest else Inr False)"

definition call_every :: "jsval \<Rightarrow> (jsval \<Rightarrow> error + bool) \<Rightarrow> error + bool" where
  "call_every a callback = (case a of
      JArr xs \<Rightarrow> every_list callback xs
    | _ \<Rightarrow> Inl TypeError)"

text \<open>The regular expression \<^verbatim>\<open>/^[a-zA-Z0-9]*$/\<close> (no flags: \<^verbatim>\<open>$\<close> is the end of the
  string).\<close>

definition alnum :: "char \<Rightarrow> bool" where
  "alnum c = (c \<in> set (''abcdefghijklmnopqrstuvwxyz'' @ ''ABCDEFGHIJKLMNOPQRSTUVWXYZ''
                          @ ''0123456789''))"

definition matches_alnum :: "string \<Rightarrow> bool" where
  "matches_alnum s = list_all alnum s"

text \<open>
  An engine has a longest string; building a longer one throws a RangeError
  (\<^verbatim>\<open>Invalid string length\<close>). The only strings of the SDK whose length is chosen by a
  number are those built from \<^verbatim>\<open>"0".repeat(difficulty)\<close>, so the bound \<open>limit\<close> is
  applied there: \<^verbatim>\<open>s.repeat(count)\<close> throws a RangeError on a negative count and on a
  result longer than the bound, and so does the concatenation \<^verbatim>\<open>a + b\<close>.
\<close>

definition js_repeat :: "nat \<Rightarrow> string \<Rightarrow> int \<Rightarrow> error + string" where
  "js_repeat limit s count =
     (if count < 0 then Inl RangeError
      else if limit < length s * nat count then Inl RangeError
      else Inr (concat (replicate (nat count) s)))"

definition js_concat :: "nat \<Rightarrow> string \<Rightarrow> string \<Rightarrow> error + string" where
  "js_concat limit a b = (if limit < length a + length b then Inl RangeError else Inr (a @ b))"

text \<open>\<^verbatim>\<open>nonce++\<close> on a Number: exact up to \<open>2^53\<close>, where adding one rounds back to
  \<open>2^53\<close>.\<close>

definition js_increment :: "nat \<Rightarrow> nat" where
  "js_increment n = (if n < 2 ^ 53 then n + 1 else n)"

text \<open>ToBoolean, as applied by \<^verbatim>\<open>if (...)\<close>.\<close>

definition truthy :: "jsval \<Rightarrow> bool" where
  "truthy v = (case v of
      JUndefined \<Rightarrow> False
    | JNull \<Rightarrow> False
    | JBool b \<Rightarrow> b
    | JNum n \<Rightarrow> n \<noteq> 0
    | JStr s \<Rightarrow> s \<noteq> []
    | _ \<Rightarrow> True)"

text \<open>A chain \<^verbatim>\<open>v.hasOwnProperty(k1) && v.hasOwnProperty(k2) && ...\<close>, evaluated from
  the left and stopping at the first false.\<close>

fun hasOwnProperties :: "jsval \<Rightarrow> string list \<Rightarrow> error + bool" where
  "hasOwnProperties v [] = Inr True"
| "hasOwnProperties v (k # ks) =
     bindE (call_hasOwnProperty v k) (\<lambda>b. if b then hasOwnProperties v ks else Inr False)"

section \<open>The external primitives\<close>

text \<open>
  The SDK calls the library \<^verbatim>\<open>eth-crypto\<close> for hashing, signing, public-key recovery and
  key derivation, and the engine for converting strings to numbers. They are not code of
  the SDK and are parameters of the model, as is the length of the engine's longest
  string; a primitive that can throw returns the exception as \<open>Inl\<close>.
  \<^verbatim>\<open>recoverPublicKey\<close> receives whatever value the commit carries as its signature.
\<close>

record runtime =
  eth_keccak256 :: "string \<Rightarrow> string"
  eth_sign :: "string \<Rightarrow> string \<Rightarrow> error + string"
  eth_recoverPublicKey :: "jsval \<Rightarrow> string \<Rightarrow> error + string"
  eth_publicKeyByPrivateKey :: "string \<Rightarrow> error + string"
  string_positive :: "string \<Rightarrow> bool"
  max_string_length :: nat

section \<open>The SDK: \<^verbatim>\<open>src/index.js\<close>\<close>

text \<open>\<^verbatim>\<open>hash.startsWith("0x" + "0".repeat(difficulty))\<close>\<close>

definition difficultyverify :: "runtime \<Rightarrow> int \<Rightarrow> string \<Rightarrow> error + bool" where
  "difficultyverify rt difficulty hash =
     bindE (js_repeat (max_string_length rt) ''0'' difficulty) (\<lambda>zeros.
     bindE (js_concat (max_string_length rt) ''0x'' zeros) (\<lambda>wanted.
     Inr (prefix wanted hash)))"

definition hashMessage :: "runtime \<Rightarrow> string \<Rightarrow> string" where
  "hashMessage rt message = eth_keccak256 rt message"

definition signMessage :: "runtime \<Rightarrow> string \<Rightarrow> string \<Rightarrow> error + string" where
  "signMessage rt privateKey message = eth_sign rt privateKey (hashMessage rt message)"

definition recoverPublicKey :: "runtime \<Rightarrow> jsval \<Rightarrow> string \<Rightarrow> error + string" where
  "recoverPublicKey rt signature message =
     eth_recoverPublicKey rt signature (hashMessage rt message)"

text \<open>A parameter with a default value takes the default when the argument is
  \<^verbatim>\<open>undefined\<close>.\<close>

definition default_to :: "jsval \<Rightarrow> jsval \<Rightarrow> jsval" where
  "default_to d v = (if v = JUndefined then d else v)"

definition postTemplate :: "jsval \<Rightarrow> jsval \<Rightarrow> jsval \<Rightarrow> jsval \<Rightarrow> jsval" where
  "postTemplate content hashtags attachments parentID =
     JObj [(''parent'', default_to JNull parentID),
           (''content'', content),
           (''hashtags'', default_to (JArr []) hashtags),
           (''attachments'', default_to (JArr []) attachments)]"

definition metaTemplate ::
  "jsval \<Rightarrow> jsval \<Rightarrow> jsval \<Rightarrow> jsval \<Rightarrow> jsval \<Rightarrow> jsval \<Rightarrow> jsval \<Rightarrow> jsval" where
  "metaTemplate name about image0 website followed hashtags bookmarks =
     JObj [(''followed'', default_to (JArr []) followed),
           (''hashtags'', default_to (JArr []) hashtags),
           (''bookmarks'', default_to (JArr []) bookmarks),
           (''name'', name),
           (''about'', about),
           (''image'', image0),
           (''website'', website)]"

subsection \<open>createCommit\<close>

text \<open>The template literal \<^verbatim>\<open>`${data}${commitAt}${nonce}`\<close>, which both
  \<^verbatim>\<open>createCommit\<close> and \<^verbatim>\<open>verifyCommit\<close> hash.\<close>

definition hashString_template :: "jsval \<Rightarrow> jsval \<Rightarrow> jsval \<Rightarrow> error + string" where
  "hashString_template data commitAt nonce =
     bindE (js_toString data) (\<lambda>d.
     bindE (js_toString commitAt) (\<lambda>c.
     bindE (js_toString nonce) (\<lambda>n.
     Inr (d @ c @ n))))"

text \<open>
  The \<^verbatim>\<open>do ... while\<close> loop of \<^verbatim>\<open>createCommit\<close>, entered with the current value of
  \<^verbatim>\<open>nonce\<close>. Each round increments the nonce, builds the string, hashes it and tests
  the difficulty; the loop has no bound, so it is a partial function and \<open>None\<close>
  stands for a search that never ends. The second disjunct of the loop condition,
  \<^verbatim>\<open>messageHash === undefined\<close>, is false for every string. An exception leaves the
  loop (\<open>Some (Inl e)\<close>).
\<close>

partial_function (option) mine ::
  "runtime \<Rightarrow> jsval \<Rightarrow> string \<Rightarrow> int \<Rightarrow> nat \<Rightarrow> (error + nat \<times> string) option" where
  "mine rt data commitAt difficulty nonce =
     (let nonce' = js_increment nonce in
      case hashString_template data (JStr commitAt) (JNum (int nonce')) of
        Inl e \<Rightarrow> Some (Inl e)
      | Inr hashString \<Rightarrow>
          (let messageHash = hashMessage rt hashString
           in case difficultyverify rt difficulty messageHash of
                Inl e \<Rightarrow> Some (Inl e)
              | Inr ok \<Rightarrow>
                  if \<not> ok then mine rt data commitAt difficulty nonce'
                  else Some (Inr (nonce', messageHash))))"

text \<open>
  \<open>now\<close> is the value of \<^verbatim>\<open>new Date().toISOString()\<close> at the call. Every exception
  inside the \<^verbatim>\<open>try\<close> block is replaced by \<^verbatim>\<open>new Error("Failed to create commit.")\<close>.
\<close>

definition commit_object :: "string \<Rightarrow> jsval \<Rightarrow> string \<Rightarrow> string \<Rightarrow> jsval \<Rightarrow> nat \<Rightarrow> jsval" where
  "commit_object commitAt data publicKey signature type nonce =
     JObj [(''commitAt'', JStr commitAt),
           (''data'', data),
           (''publicKey'', JStr publicKey),
           (''signature'', JStr signature),
           (''type'', type),
           (''nonce'', JNum (int nonce))]"

text \<open>The \<^verbatim>\<open>try\<close> block of \<^verbatim>\<open>createCommit\<close>.\<close>

definition createCommit_try ::
  "runtime \<Rightarrow> string \<Rightarrow> string \<Rightarrow> jsval \<Rightarrow> jsval \<Rightarrow> int \<Rightarrow> (error + jsval) option" where
  "createCommit_try rt now privateKey data type difficulty =
     (let commitAt = now in
      case mine rt data commitAt difficulty 0 of
        None \<Rightarrow> None
      | Some found \<Rightarrow>
          Some (bindE found (\<lambda>(nonce, messageHash).
                bindE (signMessage rt privateKey messageHash) (\<lambda>signature.
                bindE (eth_publicKeyByPrivateKey rt privateKey) (\<lambda>publicKey.
                Inr (commit_object commitAt data publicKey signature type nonce))))))"

definition createCommit ::
  "runtime \<Rightarrow> string \<Rightarrow> string \<Rightarrow> jsval \<Rightarrow> jsval \<Rightarrow> int \<Rightarrow> (error + jsval) option" where
  "createCommit rt now privateKey data type difficulty =
     (case createCommit_try rt now privateKey data type difficulty of
        None \<Rightarrow> None
      | Some (Inl e) \<Rightarrow> Some (Inl (Error ''Failed to create commit.''))
      | Some (Inr commit) \<Rightarrow> Some (Inr commit))"

subsection \<open>checkdatastructure\<close>

text \<open>
  The callback given to \<^verbatim>\<open>data.hashtags.forEach\<close>. Its \<^verbatim>\<open>return false\<close> statements
  return from the callback; it assigns no variable.
\<close>

definition hashtag_callback :: "jsval \<Rightarrow> unit \<Rightarrow> error + (jsval \<times> unit)" where
  "hashtag_callback element st = (case element of
      JStr s \<Rightarrow>
        if 32 < length s then Inr (JBool False, st)
        else if \<not> matches_alnum s then Inr (JBool False, st)
        else Inr (JUndefined, st)
    | _ \<Rightarrow> Inr (JBool False, st))"

text \<open>The callback given to \<^verbatim>\<open>data.attachments.forEach\<close>; the state is the pair of the
  variables \<^verbatim>\<open>allgood\<close> and \<^verbatim>\<open>allgoodx\<close>.\<close>

definition attachment_callback :: "jsval \<Rightarrow> bool \<times> bool \<Rightarrow> error + (jsval \<times> (bool \<times> bool))" where
  "attachment_callback element st = (case st of (allgood, allgoodx) \<Rightarrow>
     bindE (call_hasOwnProperty element ''type'') (\<lambda>has_type.
     let allgood = (if has_type then True else allgood) in
     bindE (call_hasOwnProperty element ''cid'') (\<lambda>has_cid.
     let allgoodx = (if has_cid then \<not> allgoodx else allgoodx) in
     bindE (call_hasOwnProperty element ''url'') (\<lambda>has_url.
     let allgoodx = (if has_url then \<not> allgoodx else allgoodx) in
     Inr (JUndefined, (allgood, allgoodx))))))"

text \<open>The body of the branch \<^verbatim>\<open>if ((type = "post")) { ... }\<close>.\<close>

definition post_branch :: "runtime \<Rightarrow> jsval \<Rightarrow> error + bool" where
  "post_branch rt data =
     bindE (hasOwnProperties data [''parent'', ''content'', ''hashtags'', ''attachments''])
       (\<lambda>present.
     if present then
       bindE (get_prop data ''hashtags'') (\<lambda>hashtags.
       bindE (get_prop hashtags ''length'') (\<lambda>n.
       bindE (js_gt_zero (string_positive rt) n) (\<lambda>some_hashtags.
       bindE (if some_hashtags then call_forEach hashtags hashtag_callback () else Inr ())
         (\<lambda>_.
       bindE (get_prop data ''attachments'') (\<lambda>attachments.
       bindE (get_prop attachments ''length'') (\<lambda>m.
       bindE (js_gt_zero (string_positive rt) m) (\<lambda>some_attachments.
       if some_attachments then
         bindE (call_forEach attachments attachment_callback (False, False))
           (\<lambda>(allgood, allgoodx).
              if allgood = False \<or> allgoodx = False then Inr False else Inr True)
       else Inr True)))))))
     else Inr False)"

text \<open>The body of the branch \<^verbatim>\<open>if ((type = "meta")) { ... }\<close>; it reads
  \<^verbatim>\<open>data.hashTags\<close>.\<close>

definition meta_branch :: "jsval \<Rightarrow> error + bool" where
  "meta_branch data =
     bindE (hasOwnProperties data
         [''followed'', ''hashtags'', ''bookmarks'', ''name'', ''about'', ''image'', ''website''])
       (\<lambda>present.
     if present then
       bindE (get_prop data ''hashTags'') (\<lambda>hashTags.
       bindE (call_forEach hashTags hashtag_callback ()) (\<lambda>_. Inr True))
     else Inr False)"

text \<open>The body of the branch \<^verbatim>\<open>if ((type = "message")) { ... }\<close>.\<close>

definition message_branch :: "jsval \<Rightarrow> error + bool" where
  "message_branch data =
     bindE (hasOwnProperties data [''receiver'', ''message'']) (\<lambda>present.
     if present then Inr True else Inr False)"

text \<open>
  The three conditions are the assignments \<^verbatim>\<open>(type = "post")\<close>, \<^verbatim>\<open>(type = "meta")\<close>
  and \<^verbatim>\<open>(type = "message")\<close>: each stores the string in the parameter \<^verbatim>\<open>type\<close> and
  has that string as its value.
\<close>

definition checkdatastructure :: "runtime \<Rightarrow> jsval \<Rightarrow> jsval \<Rightarrow> error + bool" where
  "checkdatastructure rt data type =
     (let type = JStr ''post'' in
      if truthy type then post_branch rt data
      else let type = JStr ''meta'' in
      if truthy type then meta_branch data
      else let type = JStr ''message'' in
      if truthy type then message_branch data
      else Inr False)"

subsection \<open>verifyObject and verifyCommit\<close>

definition verifyObject :: "runtime \<Rightarrow> jsval \<Rightarrow> error + bool" where
  "verifyObject rt dataObject =
     bindE (Object_keys_length dataObject) (\<lambda>n.
     if n \<noteq> 6 then Inr False
     else
       bindE (get_prop dataObject ''data'') (\<lambda>data.
       bindE (get_prop dataObject ''type'') (\<lambda>type.
       bindE (checkdatastructure rt data type) (\<lambda>ok.
       if ok = False then Inr False
       else
         bindE (hasOwnProperties dataObject
             [''commitAt'', ''data'', ''publicKey'', ''signature'', ''type'', ''nonce''])
           (\<lambda>present. if present then Inr True else Inr False)))))"

text \<open>\<^verbatim>\<open>`${commit.data}${commit.commitAt}${commit.nonce}`\<close>\<close>

definition commit_hashString :: "jsval \<Rightarrow> error + string" where
  "commit_hashString commit =
     bindE (get_prop commit ''data'') (\<lambda>data.
     bindE (get_prop commit ''commitAt'') (\<lambda>commitAt.
     bindE (get_prop commit ''nonce'') (\<lambda>nonce.
     hashString_template data commitAt nonce)))"

text \<open>The \<^verbatim>\<open>try\<close> block of \<^verbatim>\<open>verifyCommit\<close>.\<close>

definition verifyCommit_try :: "runtime \<Rightarrow> jsval \<Rightarrow> int \<Rightarrow> error + bool" where
  "verifyCommit_try rt commit difficulty =
     bindE (commit_hashString commit) (\<lambda>hashString.
     let hashedData = hashMessage rt hashString in
     bindE (difficultyverify rt difficulty hashedData) (\<lambda>met.
     if \<not> met then Inr False
     else
       bindE (get_prop commit ''signature'') (\<lambda>signature.
       bindE (recoverPublicKey rt signature hashedData) (\<lambda>signer.
       bindE (get_prop commit ''publicKey'') (\<lambda>publicKey.
       Inr (JStr signer = publicKey))))))"

text \<open>The call of \<^verbatim>\<open>verifyObject\<close> is outside the \<^verbatim>\<open>try\<close> block: an exception
  raised there leaves \<^verbatim>\<open>verifyCommit\<close>. An exception inside the block is caught and
  \<^verbatim>\<open>false\<close> is returned.\<close>

definition verifyCommit :: "runtime \<Rightarrow> jsval \<Rightarrow> int \<Rightarrow> error + bool" where
  "verifyCommit rt commit difficulty =
     bindE (verifyObject rt commit) (\<lambda>valid.
     if \<not> valid then Inr False
     else case verifyCommit_try rt commit difficulty of
            Inl e \<Rightarrow> Inr False
          | Inr b \<Rightarrow> Inr b)"

section \<open>The variant in \<^verbatim>\<open>src/unnamed/part_003\<close>\<close>

text \<open>
  A second copy of the SDK tests the type tag with \<^verbatim>\<open>===\<close> and the elements with
  \<^verbatim>\<open>every\<close>, and looks for the six fields before it reads any of them.
\<close>

definition hashtag_every_callback :: "jsval \<Rightarrow> error + bool" where
  "hashtag_every_callback element = (case element of
      JStr s \<Rightarrow> Inr (length s \<le> 32 \<and> matches_alnum s)
    | _ \<Rightarrow> Inr False)"

definition attachment_every_callback :: "jsval \<Rightarrow> error + bool" where
  "attachment_every_callback element =
     bindE (call_hasOwnProperty element ''type'') (\<lambda>has_type.
     if \<not> has_type then Inr False
     else
       bindE (get_prop element ''type'') (\<lambda>t.
       if \<not> (t = JStr ''image'' \<or> t = JStr ''video'' \<or> t = JStr ''others'') then Inr False
       else
         bindE (call_hasOwnProperty element ''cid'') (\<lambda>has_cid.
         if has_cid then Inr True else call_hasOwnProperty element ''url'')))"

definition checkDataStructure :: "jsval \<Rightarrow> jsval \<Rightarrow> error + bool" where
  "checkDataStructure data type =
     (if type = JStr ''post'' then
        bindE (hasOwnProperties data [''parent'', ''content'', ''hashtags'', ''attachments''])
          (\<lambda>present.
        if \<not> present then Inr False
        else
          bindE (get_prop data ''hashtags'') (\<lambda>hashtags.
          bindE (call_every hashtags hashtag_every_callback) (\<lambda>tags_ok.
          if \<not> tags_ok then Inr False
          else
            bindE (get_prop data ''attachments'') (\<lambda>attachments.
            call_every attachments attachment_every_callback))))
      else if type = JStr ''meta'' then
        bindE (hasOwnProperties data
            [''followed'', ''hashtags'', ''bookmarks'', ''name'', ''about'', ''image'', ''website''])
          (\<lambda>present.
        if \<not> present then Inr False
        else
          bindE (get_prop data ''hashtags'') (\<lambda>hashtags.
          call_every hashtags hashtag_every_callback))
      else if type = JStr ''message'' then
        hasOwnProperties data [''receiver'', ''message'']
      else Inr False)"

definition verifyObject_part_003 :: "jsval \<Rightarrow> error + bool" where
  "verifyObject_part_003 dataObject =
     bindE (hasOwnProperties dataObject
         [''commitAt'', ''data'', ''publicKey'', ''signature'', ''type'', ''nonce''])
       (\<lambda>present.
     if \<not> present then Inr False
     else
       bindE (get_prop dataObject ''data'') (\<lambda>data.
       bindE (get_prop dataObject ''type'') (\<lambda>type.
       checkDataStructure data type)))"

text \<open>\<^verbatim>\<open>hash.startsWith("0".repeat(difficulty))\<close>: this copy hashes with SHA-256 and
  prints the digest without the prefix \<^verbatim>\<open>0x\<close>.\<close>

definition difficultyverify_part_003 :: "runtime \<Rightarrow> int \<Rightarrow> string \<Rightarrow> error + bool" where
  "difficultyverify_part_003 rt difficulty hash =
     bindE (js_repeat (max_string_length rt) ''0'' difficulty) (\<lambda>zeros.
     Inr (prefix zeros hash))"

section \<open>A small runtime on which the model can be evaluated\<close>

text \<open>
  A stand-in for the external primitives, with the formats of \<^verbatim>\<open>eth-crypto\<close>: the
  digest is a string that starts with \<^verbatim>\<open>0x\<close>, the longest string has the length it has
  in V8 (\<open>2^29 - 24\<close>), recovery from a signature made by
  \<open>toy_sign\<close> over the same hash gives the signer's public key. The digest of a string
  begins with as many zeros as the last character of the string says when it is one of
  the digits 1, 2 and 3, so that the search for a nonce takes a few rounds.
\<close>

definition toy_zeros :: "string \<Rightarrow> nat" where
  "toy_zeros s = (case rev s of
      [] \<Rightarrow> 0
    | c # _ \<Rightarrow> if c = CHR ''3'' then 3 else if c = CHR ''2'' then 2
               else if c = CHR ''1'' then 1 else 0)"

definition toy_keccak256 :: "string \<Rightarrow> string" where
  "toy_keccak256 s = ''0x'' @ replicate (toy_zeros s) (CHR ''0'') @ ''a'' @ s"

definition toy_publicKeyByPrivateKey :: "string \<Rightarrow> error + string" where
  "toy_publicKeyByPrivateKey privateKey =
     (if privateKey = [] then Inl (Error ''invalid private key'') else Inr (''pub:'' @ privateKey))"

definition toy_sign :: "string \<Rightarrow> string \<Rightarrow> error + string" where
  "toy_sign privateKey hash =
     bindE (toy_publicKeyByPrivateKey privateKey) (\<lambda>pk. Inr (pk @ ''|'' @ hash))"

definition toy_recoverPublicKey :: "jsval \<Rightarrow> string \<Rightarrow> error + string" where
  "toy_recoverPublicKey signature hash = (case signature of
      JStr s \<Rightarrow>
        if length hash < length s \<and> drop (length s - (length hash + 1)) s = ''|'' @ hash
        then Inr (take (length s - (length hash + 1)) s)
        else Inl (Error ''invalid signature'')
    | _ \<Rightarrow> Inl TypeError)"

definition toy_positive :: "string \<Rightarrow> bool" where
  "toy_positive s =
     (s \<noteq> [] \<and> list_all (\<lambda>c. c \<in> set ''0123456789'') s \<and> \<not> list_all (\<lambda>c. c = CHR ''0'') s)"

definition toy :: runtime where
  "toy = \<lparr> eth_keccak256 = toy_keccak256,
           eth_sign = toy_sign,
           eth_recoverPublicKey = toy_recoverPublicKey,
           eth_publicKeyByPrivateKey = toy_publicKeyByPrivateKey,
           string_positive = toy_positive,
           max_string_length = 536870888 \<rparr>"

section \<open>Notions used in the statements\<close>

text \<open>The proof-of-work test that one round of the loop of \<^verbatim>\<open>createCommit\<close> makes at
  the nonce \<open>nonce\<close>: build the string, hash it, test the difficulty.\<close>

definition pow_check :: "runtime \<Rightarrow> jsval \<Rightarrow> string \<Rightarrow> int \<Rightarrow> nat \<Rightarrow> error + bool" where
  "pow_check rt data commitAt difficulty nonce =
     bindE (hashString_template data (JStr commitAt) (JNum (int nonce))) (\<lambda>hashString.
     difficultyverify rt difficulty (hashMessage rt hashString))"

text \<open>What the loop, entered with the nonce \<open>k\<close>, has established when it leaves with the
  nonce \<open>n\<close> and the digest \<open>h\<close>.\<close>

definition mined :: "runtime \<Rightarrow> jsval \<Rightarrow> string \<Rightarrow> int \<Rightarrow> nat \<Rightarrow> nat \<Rightarrow> string \<Rightarrow> bool" where
  "mined rt data commitAt difficulty k n h \<longleftrightarrow>
     js_increment k \<le> n \<and> (k \<le> 2 ^ 53 \<longrightarrow> n \<le> 2 ^ 53)
     \<and> pow_check rt data commitAt difficulty n = Inr True
     \<and> (\<exists>hs. hashString_template data (JStr commitAt) (JNum (int n)) = Inr hs \<and> h = hashMessage rt hs)
     \<and> (\<forall>m. js_increment k \<le> m \<and> m < n \<longrightarrow> pow_check rt data commitAt difficulty m = Inr False)"

text \<open>A commit object whose six fields hold arbitrary values, as \<^verbatim>\<open>verifyCommit\<close> may
  receive it.\<close>

definition commit_fields :: "jsval \<Rightarrow> jsval \<Rightarrow> jsval \<Rightarrow> jsval \<Rightarrow> jsval \<Rightarrow> jsval \<Rightarrow> jsval" where
  "commit_fields commitAt data publicKey signature type nonce =
     JObj [(''commitAt'', commitAt),
           (''data'', data),
           (''publicKey'', publicKey),
           (''signature'', signature),
           (''type'', type),
           (''nonce'', nonce)]"

section \<open>Basic facts\<close>

lemma bindE_Inl [simp]: "bindE (Inl e) f = Inl e"
  by (simp add: bindE_def)

lemma bindE_Inr [simp]: "bindE (Inr x) f = f x"
  by (simp add: bindE_def)

lemma bindE_eq_Inr: "bindE m f = Inr y \<longleftrightarrow> (\<exists>x. m = Inr x \<and> f x = Inr y)"
  by (cases m) simp_all

lemma concat_replicate_zero: "concat (replicate n ''0'') = replicate n (CHR ''0'')"
  by (induction n) simp_all

lemma difficultyverify_nat:
  "2 + d \<le> max_string_length rt \<Longrightarrow>
   difficultyverify rt (int d) h = Inr (prefix (''0x'' @ replicate d (CHR ''0'')) h)"
  by (simp add: difficultyverify_def js_repeat_def js_concat_def concat_replicate_zero)

lemma difficultyverify_too_long:
  "max_string_length rt < 2 + d \<Longrightarrow> difficultyverify rt (int d) h = Inl RangeError"
  by (simp add: difficultyverify_def js_repeat_def js_concat_def concat_replicate_zero)

lemma difficultyverify_Inr_bound:
  "difficultyverify rt (int d) h = Inr b \<Longrightarrow> 2 + d \<le> max_string_length rt"
  by (rule ccontr) (simp add: difficultyverify_too_long)

lemma commit_object_fields:
  "commit_object commitAt data publicKey signature type nonce =
     commit_fields (JStr commitAt) data (JStr publicKey) (JStr signature) type (JNum (int nonce))"
  by (simp add: commit_object_def commit_fields_def)

lemma get_prop_commit_fields:
  "get_prop (commit_fields c d pk sg t n) ''commitAt'' = Inr c"
  "get_prop (commit_fields c d pk sg t n) ''data'' = Inr d"
  "get_prop (commit_fields c d pk sg t n) ''publicKey'' = Inr pk"
  "get_prop (commit_fields c d pk sg t n) ''signature'' = Inr sg"
  "get_prop (commit_fields c d pk sg t n) ''type'' = Inr t"
  "get_prop (commit_fields c d pk sg t n) ''nonce'' = Inr n"
  by (simp_all add: get_prop_def commit_fields_def)

lemma Object_keys_length_commit_fields:
  "Object_keys_length (commit_fields c d pk sg t n) = Inr 6"
  by (simp add: Object_keys_length_def commit_fields_def)

lemma js_increment_less: "n < 2 ^ 53 \<Longrightarrow> js_increment n = Suc n"
  by (simp add: js_increment_def)

lemma js_increment_ge: "k \<le> js_increment k"
  by (simp add: js_increment_def)

lemma js_increment_bound: "k \<le> 2 ^ 53 \<Longrightarrow> js_increment k \<le> 2 ^ 53"
  by (simp add: js_increment_def)

lemma js_increment_next:
  "js_increment k \<le> m \<Longrightarrow> m \<noteq> js_increment k \<Longrightarrow> js_increment (js_increment k) \<le> m"
  unfolding js_increment_def by (simp split: if_splits)

lemma mined_here:
  assumes "hashString_template data (JStr commitAt) (JNum (int (js_increment k))) = Inr hs"
    and "difficultyverify rt difficulty (hashMessage rt hs) = Inr True"
  shows "mined rt data commitAt difficulty k (js_increment k) (hashMessage rt hs)"
  unfolding mined_def using assms js_increment_bound [of k]
  by (auto simp: pow_check_def)

lemma mined_later:
  assumes "pow_check rt data commitAt difficulty (js_increment k) = Inr False"
    and "mined rt data commitAt difficulty (js_increment k) n h"
  shows "mined rt data commitAt difficulty k n h"
proof -
  let ?k' = "js_increment k"
  from assms(2) have IH: "js_increment ?k' \<le> n" "?k' \<le> 2 ^ 53 \<longrightarrow> n \<le> 2 ^ 53"
    "pow_check rt data commitAt difficulty n = Inr True"
    "\<exists>hs. hashString_template data (JStr commitAt) (JNum (int n)) = Inr hs \<and> h = hashMessage rt hs"
    "\<And>m. js_increment ?k' \<le> m \<Longrightarrow> m < n \<Longrightarrow> pow_check rt data commitAt difficulty m = Inr False"
    unfolding mined_def by simp_all
  have le: "?k' \<le> n"
    using IH(1) js_increment_ge [of ?k'] by (rule order_trans [rotated])
  have bound: "k \<le> 2 ^ 53 \<longrightarrow> n \<le> 2 ^ 53"
    using IH(2) js_increment_bound [of k] by (simp del: power_numeral)
  have rej: "pow_check rt data commitAt difficulty m = Inr False"
    if "?k' \<le> m \<and> m < n" for m
  proof (cases "m = ?k'")
    case True
    with assms(1) show ?thesis by simp
  next
    case False
    with that have "js_increment ?k' \<le> m" by (simp add: js_increment_next)
    with IH(5) that show ?thesis by simp
  qed
  show ?thesis
    unfolding mined_def
    apply (intro conjI allI impI)
        apply (rule le)
       apply (erule bound [rule_format])
      apply (rule IH(3))
     apply (rule IH(4))
    apply (erule rej)
    done
qed

lemma mine_sound_aux:
  assumes "mine rt data commitAt difficulty k = Some (Inr (n, h))"
  shows "mined rt data commitAt difficulty k n h"
proof -
  have "\<forall>n h. y = Inr (n, h) \<longrightarrow> mined rt data commitAt difficulty k n h"
    if "mine rt data commitAt difficulty k = Some y" for y
  proof (rule mine.raw_induct [where P = "\<lambda>rt data commitAt difficulty k y.
      \<forall>n h. y = Inr (n, h) \<longrightarrow> mined rt data commitAt difficulty k n h", OF _ that], goal_cases)
    case (1 f rt data commitAt difficulty k y)
    let ?k' = "js_increment k"
    show ?case
    proof (intro allI impI)
      fix n h
      assume y: "y = Inr (n, h)"
      note run = 1(2)[unfolded y Let_def]
      from run obtain hs where hs: "hashString_template data (JStr commitAt) (JNum (int ?k')) = Inr hs"
        by (cases "hashString_template data (JStr commitAt) (JNum (int ?k'))") simp_all
      from run hs obtain ok where ok: "difficultyverify rt difficulty (hashMessage rt hs) = Inr ok"
        by (cases "difficultyverify rt difficulty (hashMessage rt hs)") simp_all
      show "mined rt data commitAt difficulty k n h"
      proof (cases ok)
        case True
        with run hs ok have "n = ?k'" "h = hashMessage rt hs"
          by simp_all
        with True hs ok show ?thesis by (simp add: mined_here)
      next
        case False
        with run hs ok have rec: "f rt data commitAt difficulty ?k' = Some (Inr (n, h))"
          by simp
        from 1(1)[OF rec] have "mined rt data commitAt difficulty ?k' n h" by simp
        moreover have "pow_check rt data commitAt difficulty ?k' = Inr False"
          using hs ok False by (simp add: pow_check_def)
        ultimately show ?thesis by (rule mined_later [rotated])
      qed
    qed
  qed
  with assms show ?thesis by simp
qed

lemma mine_complete_aux:
  assumes "pow_check rt data commitAt difficulty n = Inr True"
    and "hashString_template data (JStr commitAt) (JNum (int n)) = Inr hs"
    and "n \<le> 2 ^ 53"
  shows "k < n \<Longrightarrow> (\<forall>m. k < m \<and> m < n \<longrightarrow> pow_check rt data commitAt difficulty m = Inr False)
     \<Longrightarrow> mine rt data commitAt difficulty k = Some (Inr (n, hashMessage rt hs))"
proof (induction "n - k" arbitrary: k)
  case 0
  then show ?case by simp
next
  case (Suc d)
  from Suc.prems assms(3) have k53: "k < 2 ^ 53" by simp
  then have inc: "js_increment k = Suc k" by (rule js_increment_less)
  show ?case
  proof (cases "Suc k = n")
    case True
    with assms(1,2) inc show ?thesis
      by (subst mine.simps) (auto simp: pow_check_def Let_def)
  next
    case False
    with Suc.prems have lt: "Suc k < n" by simp
    with Suc.prems have "pow_check rt data commitAt difficulty (Suc k) = Inr False" by simp
    then obtain hs' where hs': "hashString_template data (JStr commitAt) (JNum (int (Suc k))) = Inr hs'"
      and no: "difficultyverify rt difficulty (hashMessage rt hs') = Inr False"
      by (auto simp: pow_check_def bindE_eq_Inr)
    have "mine rt data commitAt difficulty (Suc k) = Some (Inr (n, hashMessage rt hs))"
      using Suc.hyps Suc.prems lt by (intro Suc.hyps(1)) auto
    with hs' no inc show ?thesis
      by (subst mine.simps) (simp add: Let_def)
  qed
qed


lemma js_increment_0: "js_increment 0 = 1"
  by (simp add: js_increment_def)

section \<open>Evaluating the small runtime\<close>

lemma toy_simps:
  "eth_keccak256 toy = toy_keccak256" "eth_sign toy = toy_sign"
  "eth_recoverPublicKey toy = toy_recoverPublicKey"
  "eth_publicKeyByPrivateKey toy = toy_publicKeyByPrivateKey"
  "string_positive toy = toy_positive"
  "max_string_length toy = 536870888"
  by (simp_all add: toy_def)

lemma hashString_template_post:
  "hashString_template (postTemplate c h a p) (JStr now) (JNum (int n)) =
     Inr (''[object Object]'' @ now @ decimal n)"
  by (simp add: hashString_template_def postTemplate_def number_to_string_def)


lemma decimal_small:
  "decimal (Suc 0) = ''1''" "decimal 1 = ''1''" "decimal 2 = ''2''" "decimal 3 = ''3''"
  by (simp_all add: decimal.simps digit_char_def)

lemma prefix_zeros_then_a:
  "prefix (replicate d (CHR ''0'')) (replicate z (CHR ''0'') @ CHR ''a'' # rest) \<longleftrightarrow> d \<le> z"
proof (cases "d \<le> z")
  case True
  then have "replicate z (CHR ''0'') = replicate d (CHR ''0'') @ replicate (z - d) (CHR ''0'')"
    by (simp add: replicate_add [symmetric])
  with True show ?thesis by simp
next
  case False
  then obtain k where d: "d = z + Suc k"
    by (metis add_Suc_right less_imp_Suc_add not_le)
  have "replicate d (CHR ''0'') = replicate z (CHR ''0'') @ CHR ''0'' # replicate k (CHR ''0'')"
    unfolding d by (simp add: replicate_add replicate_append_same)
  with False show ?thesis by simp
qed

lemma replicate_3: "replicate 3 x = [x, x, x]"
  by (simp add: numeral_3_eq_3)

lemma toy_pow_check_post:
  assumes d: "d \<le> 64"
  shows "pow_check toy (postTemplate c h a p) now (int d) n = Inr (d \<le> toy_zeros (decimal n))"
proof -
  from d have fits: "2 + d \<le> max_string_length toy"
    by (simp add: toy_simps)
  have z: "toy_zeros (s @ decimal n) = toy_zeros (decimal n)" for s
    by (subst decimal.simps, subst (2) decimal.simps) (simp add: toy_zeros_def)
  have "toy_keccak256 (''[object Object]'' @ now @ decimal n) =
      ''0x'' @ replicate (toy_zeros (decimal n)) (CHR ''0'') @ CHR ''a'' # (''[object Object]'' @ now @ decimal n)"
    unfolding toy_keccak256_def using z [of "''[object Object]'' @ now"] by simp
  then show ?thesis
    unfolding pow_check_def hashString_template_post
    by (simp add: difficultyverify_nat [OF fits] hashMessage_def toy_simps prefix_zeros_then_a)
qed

lemma toy_zeros_small:
  "toy_zeros (decimal (Suc 0)) = 1" "toy_zeros (decimal 2) = 2" "toy_zeros (decimal 3) = 3"
  by (simp_all add: decimal_small toy_zeros_def)

lemma toy_zeros_Cons: "toy_zeros (x # y # s) = toy_zeros (y # s)"
  by (cases "rev s") (simp_all add: toy_zeros_def)

lemma toy_zeros_single: "toy_zeros [c] =
  (if c = CHR ''3'' then 3 else if c = CHR ''2'' then 2 else if c = CHR ''1'' then 1 else 0)"
  by (simp add: toy_zeros_def)

section \<open>The search for the nonce\<close>

lemma toy_keccak256_first: "toy_keccak256 ''[object Object]2024-05-01T10:00:00.000Z3''
      = ''0x000a[object Object]2024-05-01T10:00:00.000Z3''"
  by (simp add: toy_keccak256_def toy_zeros_Cons toy_zeros_single replicate_3)

lemma toy_keccak256_second: "toy_keccak256 ''0x000a[object Object]2024-05-01T10:00:00.000Z3''
      = ''0x000a0x000a[object Object]2024-05-01T10:00:00.000Z3''"
  by (simp add: toy_keccak256_def toy_zeros_Cons toy_zeros_single replicate_3)

lemma createCommit_Some_iff:
  "createCommit rt now privateKey data type difficulty = Some (Inr commit) \<longleftrightarrow>
     (\<exists>n hs signature publicKey.
        1 \<le> n \<and> n \<le> 2 ^ 53
        \<and> pow_check rt data now difficulty n = Inr True
        \<and> (\<forall>m. 1 \<le> m \<and> m < n \<longrightarrow> pow_check rt data now difficulty m = Inr False)
        \<and> hashString_template data (JStr now) (JNum (int n)) = Inr hs
        \<and> signMessage rt privateKey (hashMessage rt hs) = Inr signature
        \<and> eth_publicKeyByPrivateKey rt privateKey = Inr publicKey
        \<and> commit = commit_object now data publicKey signature type n)"
  (is "?L \<longleftrightarrow> ?R")
proof
  assume L: ?L
  then obtain mined_result where m: "mine rt data now difficulty 0 = Some mined_result"
    by (cases "mine rt data now difficulty 0") (simp_all add: createCommit_def createCommit_try_def)
  with L obtain n h where nh: "mined_result = Inr (n, h)"
    by (cases mined_result) (auto simp: createCommit_def createCommit_try_def)
  from m nh have "mined rt data now difficulty 0 n h"
    by (simp add: mine_sound_aux)
  then have facts: "1 \<le> n" "n \<le> 2 ^ 53" "pow_check rt data now difficulty n = Inr True"
    "\<forall>m. 1 \<le> m \<and> m < n \<longrightarrow> pow_check rt data now difficulty m = Inr False"
    and "\<exists>hs. hashString_template data (JStr now) (JNum (int n)) = Inr hs \<and> h = hashMessage rt hs"
    unfolding mined_def js_increment_0 by simp_all
  then obtain hs where hs: "hashString_template data (JStr now) (JNum (int n)) = Inr hs"
    "h = hashMessage rt hs" by blast
  from L m nh obtain signature where sg: "signMessage rt privateKey h = Inr signature"
    by (cases "signMessage rt privateKey h") (simp_all add: createCommit_def createCommit_try_def)
  from L m nh sg obtain publicKey where pk: "eth_publicKeyByPrivateKey rt privateKey = Inr publicKey"
    by (cases "eth_publicKeyByPrivateKey rt privateKey")
      (simp_all add: createCommit_def createCommit_try_def)
  from L m nh sg pk have "commit = commit_object now data publicKey signature type n"
    by (simp add: createCommit_def createCommit_try_def)
  with facts hs sg pk show ?R by blast
next
  assume ?R
  then obtain n hs signature publicKey where
    n: "1 \<le> n" "n \<le> 2 ^ 53"
    and acc: "pow_check rt data now difficulty n = Inr True"
    and rej: "\<forall>m. 1 \<le> m \<and> m < n \<longrightarrow> pow_check rt data now difficulty m = Inr False"
    and hs: "hashString_template data (JStr now) (JNum (int n)) = Inr hs"
    and sg: "signMessage rt privateKey (hashMessage rt hs) = Inr signature"
    and pk: "eth_publicKeyByPrivateKey rt privateKey = Inr publicKey"
    and c: "commit = commit_object now data publicKey signature type n"
    by blast
  have "mine rt data now difficulty 0 = Some (Inr (n, hashMessage rt hs))"
    using acc hs n(2)
  proof (rule mine_complete_aux)
    show "0 < n" using n(1) by simp
    show "\<forall>m. 0 < m \<and> m < n \<longrightarrow> pow_check rt data now difficulty m = Inr False"
      using rej by simp
  qed
  with sg pk c show ?L
    by (simp add: createCommit_def createCommit_try_def)
qed

text \<open>
  Claim C4 (minimal-nonce mining). \<^verbatim>\<open>createCommit\<close> tries the nonces 1, 2, 3, ... in
  this order and returns the first one whose digest passes the difficulty test: it
  returns a commit exactly when there is a least positive nonce \<open>n\<close> that passes (every
  nonce \<open>m\<close> with \<open>1 \<le> m < n\<close> fails, under the same payload string and timestamp),
  that nonce is within the range where \<^verbatim>\<open>nonce++\<close> is exact, and signing and key
  derivation succeed. The commit returned has exactly six fields; its field \<^verbatim>\<open>nonce\<close>
  is this \<open>n\<close>, its \<^verbatim>\<open>commitAt\<close> the timestamp, its \<^verbatim>\<open>data\<close> and \<^verbatim>\<open>type\<close> the
  arguments, its \<^verbatim>\<open>signature\<close> the signature over the digest at \<open>n\<close> and its
  \<^verbatim>\<open>publicKey\<close> the key derived from the private key. When no nonce passes, the search
  does not end.
\<close>

theorem createCommit_minimal_nonce:
  "createCommit rt now privateKey data type difficulty = Some (Inr commit) \<longleftrightarrow>
     (\<exists>n hs signature publicKey.
        1 \<le> n \<and> n \<le> 2 ^ 53
        \<and> pow_check rt data now difficulty n = Inr True
        \<and> (\<forall>m. 1 \<le> m \<and> m < n \<longrightarrow> pow_check rt data now difficulty m = Inr False)
        \<and> hashString_template data (JStr now) (JNum (int n)) = Inr hs
        \<and> signMessage rt privateKey (hashMessage rt hs) = Inr signature
        \<and> eth_publicKeyByPrivateKey rt privateKey = Inr publicKey
        \<and> commit = commit_object now data publicKey signature type n
        \<and> get_prop commit ''nonce'' = Inr (JNum (int n))
        \<and> get_prop commit ''commitAt'' = Inr (JStr now)
        \<and> get_prop commit ''data'' = Inr data
        \<and> get_prop commit ''type'' = Inr type
        \<and> get_prop commit ''publicKey'' = Inr (JStr publicKey)
        \<and> get_prop commit ''signature'' = Inr (JStr signature)
        \<and> Object_keys_length commit = Inr 6)"
  (is "?L \<longleftrightarrow> ?R")
proof
  assume ?L
  then obtain n hs signature publicKey where
    old: "1 \<le> n" "n \<le> 2 ^ 53"
      "pow_check rt data now difficulty n = Inr True"
      "\<forall>m. 1 \<le> m \<and> m < n \<longrightarrow> pow_check rt data now difficulty m = Inr False"
      "hashString_template data (JStr now) (JNum (int n)) = Inr hs"
      "signMessage rt privateKey (hashMessage rt hs) = Inr signature"
      "eth_publicKeyByPrivateKey rt privateKey = Inr publicKey"
    and c: "commit = commit_object now data publicKey signature type n"
    unfolding createCommit_Some_iff by blast
  have fields: "get_prop commit ''nonce'' = Inr (JNum (int n))"
    "get_prop commit ''commitAt'' = Inr (JStr now)"
    "get_prop commit ''data'' = Inr data"
    "get_prop commit ''type'' = Inr type"
    "get_prop commit ''publicKey'' = Inr (JStr publicKey)"
    "get_prop commit ''signature'' = Inr (JStr signature)"
    "Object_keys_length commit = Inr 6"
    unfolding c commit_object_fields
    by (simp_all only: get_prop_commit_fields Object_keys_length_commit_fields)
  show ?R
    apply (rule exI [of _ n])
    apply (rule exI [of _ hs])
    apply (rule exI [of _ signature])
    apply (rule exI [of _ publicKey])
    apply (intro conjI)
                  apply (rule old c fields)+
    done
next
  assume ?R
  then show ?L unfolding createCommit_Some_iff by blast
qed

theorem createCommit_minimal_nonce_witness:
  "createCommit toy ''2024-05-01T10:00:00.000Z'' ''k1''
     (postTemplate (JStr ''Hello Boy'') (JArr [JStr ''news'']) (JArr []) JUndefined) (JStr ''post'') 3
   = Some (Inr (JObj
       [(''commitAt'', JStr ''2024-05-01T10:00:00.000Z''),
        (''data'', postTemplate (JStr ''Hello Boy'') (JArr [JStr ''news'']) (JArr []) JUndefined),
        (''publicKey'', JStr ''pub:k1''),
        (''signature'', JStr ''pub:k1|0x000a0x000a[object Object]2024-05-01T10:00:00.000Z3''),
        (''type'', JStr ''post''),
        (''nonce'', JNum 3)]))
   \<and> pow_check toy (postTemplate (JStr ''Hello Boy'') (JArr [JStr ''news'']) (JArr []) JUndefined)
        ''2024-05-01T10:00:00.000Z'' 3 1 = Inr False
   \<and> pow_check toy (postTemplate (JStr ''Hello Boy'') (JArr [JStr ''news'']) (JArr []) JUndefined)
        ''2024-05-01T10:00:00.000Z'' 3 2 = Inr False
   \<and> pow_check toy (postTemplate (JStr ''Hello Boy'') (JArr [JStr ''news'']) (JArr []) JUndefined)
        ''2024-05-01T10:00:00.000Z'' 3 3 = Inr True"
proof -
  let ?p = "postTemplate (JStr ''Hello Boy'') (JArr [JStr ''news'']) (JArr []) JUndefined"
  let ?now = "''2024-05-01T10:00:00.000Z''"
  let ?sg = "''pub:k1|0x000a0x000a[object Object]2024-05-01T10:00:00.000Z3''"
  let ?c = "commit_object ?now ?p ''pub:k1'' ?sg (JStr ''post'') 3"
  have acc: "pow_check toy ?p ?now 3 3 = Inr True"
    using toy_pow_check_post [of 3 _ _ _ _ ?now 3] by (simp add: toy_zeros_small)
  have rej1: "pow_check toy ?p ?now 3 1 = Inr False"
    using toy_pow_check_post [of 3 _ _ _ _ ?now 1] by (simp add: toy_zeros_small)
  have rej2: "pow_check toy ?p ?now 3 2 = Inr False"
    using toy_pow_check_post [of 3 _ _ _ _ ?now 2] by (simp add: toy_zeros_small)
  have rej: "\<forall>m. 1 \<le> m \<and> m < 3 \<longrightarrow> pow_check toy ?p ?now 3 m = Inr False"
  proof (intro allI impI)
    fix m :: nat
    assume "1 \<le> m \<and> m < 3"
    then have "m = 1 \<or> m = 2" by arith
    then show "pow_check toy ?p ?now 3 m = Inr False"
      using rej1 rej2 by blast
  qed
  have hs: "hashString_template ?p (JStr ?now) (JNum (int 3))
      = Inr ''[object Object]2024-05-01T10:00:00.000Z3''"
    using hashString_template_post [of _ _ _ _ ?now 3] by (simp add: decimal_small)
  have sg: "signMessage toy ''k1'' (hashMessage toy ''[object Object]2024-05-01T10:00:00.000Z3'')
      = Inr ?sg"
    unfolding signMessage_def hashMessage_def toy_simps toy_keccak256_first toy_keccak256_second
    by (simp add: toy_sign_def toy_publicKeyByPrivateKey_def)
  have pk: "eth_publicKeyByPrivateKey toy ''k1'' = Inr ''pub:k1''"
    by (simp add: toy_simps toy_publicKeyByPrivateKey_def)
  have fields: "get_prop ?c ''nonce'' = Inr (JNum (int 3))"
    "get_prop ?c ''commitAt'' = Inr (JStr ?now)"
    "get_prop ?c ''data'' = Inr ?p"
    "get_prop ?c ''type'' = Inr (JStr ''post'')"
    "get_prop ?c ''publicKey'' = Inr (JStr ''pub:k1'')"
    "get_prop ?c ''signature'' = Inr (JStr ?sg)"
    "Object_keys_length ?c = Inr 6"
    unfolding commit_object_fields
    by (simp_all only: get_prop_commit_fields Object_keys_length_commit_fields)
  have "\<exists>n hs signature publicKey.
        1 \<le> n \<and> n \<le> 2 ^ 53
        \<and> pow_check toy ?p ?now 3 n = Inr True
        \<and> (\<forall>m. 1 \<le> m \<and> m < n \<longrightarrow> pow_check toy ?p ?now 3 m = Inr False)
        \<and> hashString_template ?p (JStr ?now) (JNum (int n)) = Inr hs
        \<and> signMessage toy ''k1'' (hashMessage toy hs) = Inr signature
        \<and> eth_publicKeyByPrivateKey toy ''k1'' = Inr publicKey
        \<and> ?c = commit_object ?now ?p publicKey signature (JStr ''post'') n
        \<and> get_prop ?c ''nonce'' = Inr (JNum (int n))
        \<and> get_prop ?c ''commitAt'' = Inr (JStr ?now)
        \<and> get_prop ?c ''data'' = Inr ?p
        \<and> get_prop ?c ''type'' = Inr (JStr ''post'')
        \<and> get_prop ?c ''publicKey'' = Inr (JStr publicKey)
        \<and> get_prop ?c ''signature'' = Inr (JStr signature)
        \<and> Object_keys_length ?c = Inr 6"
    apply (rule exI [of _ 3])
    apply (rule exI [of _ "''[object Object]2024-05-01T10:00:00.000Z3''"])
    apply (rule exI [of _ ?sg])
    apply (rule exI [of _ "''pub:k1''"])
    apply (intro conjI)
                  apply simp
                 apply simp
                apply (rule acc)
               apply (rule rej)
              apply (rule hs)
             apply (rule sg)
            apply (rule pk)
           apply (rule refl)
          apply (rule fields)+
    done
  then have "createCommit toy ?now ''k1'' ?p (JStr ''post'') 3 = Some (Inr ?c)"
    by (rule createCommit_minimal_nonce [THEN iffD2])
  then show ?thesis
    using rej1 rej2 acc by (simp add: commit_object_def)
qed

section \<open>The difficulty predicate\<close>

lemma difficultyverify_part_003_nat:
  "d \<le> max_string_length rt \<Longrightarrow>
   difficultyverify_part_003 rt (int d) h = Inr (prefix (replicate d (CHR ''0'')) h)"
  by (simp add: difficultyverify_part_003_def js_repeat_def concat_replicate_zero)

lemma difficultyverify_part_003_too_long:
  "max_string_length rt < d \<Longrightarrow> difficultyverify_part_003 rt (int d) h = Inl RangeError"
  by (simp add: difficultyverify_part_003_def js_repeat_def)

lemma prefix_replicate_length: "prefix (replicate d c) xs \<Longrightarrow> d \<le> length xs"
  using prefix_length_le by fastforce

lemma difficultyverify_True_iff:
  assumes "2 + length hex \<le> max_string_length rt"
  shows "difficultyverify rt (int d) (''0x'' @ hex) = Inr True
     \<longleftrightarrow> prefix (replicate d (CHR ''0'')) hex"
proof (cases "2 + d \<le> max_string_length rt")
  case True
  then show ?thesis by (simp add: difficultyverify_nat)
next
  case False
  then have "max_string_length rt < 2 + d" by simp
  then have "difficultyverify rt (int d) (''0x'' @ hex) = Inl RangeError"
    by (rule difficultyverify_too_long)
  moreover have "\<not> prefix (replicate d (CHR ''0'')) hex"
  proof
    assume "prefix (replicate d (CHR ''0'')) hex"
    then have "d \<le> length hex" by (rule prefix_replicate_length)
    with assms False show False by simp
  qed
  ultimately show ?thesis by simp
qed

lemma difficultyverify_part_003_True_iff:
  assumes "length hex \<le> max_string_length rt"
  shows "difficultyverify_part_003 rt (int d) hex = Inr True
     \<longleftrightarrow> prefix (replicate d (CHR ''0'')) hex"
proof (cases "d \<le> max_string_length rt")
  case True
  then show ?thesis by (simp add: difficultyverify_part_003_nat)
next
  case False
  then have "max_string_length rt < d" by simp
  then have "difficultyverify_part_003 rt (int d) hex = Inl RangeError"
    by (rule difficultyverify_part_003_too_long)
  moreover have "\<not> prefix (replicate d (CHR ''0'')) hex"
  proof
    assume "prefix (replicate d (CHR ''0'')) hex"
    then have "d \<le> length hex" by (rule prefix_replicate_length)
    with assms False show False by simp
  qed
  ultimately show ?thesis by simp
qed

lemma difficultyverify_zero:
  "2 \<le> max_string_length rt \<Longrightarrow> difficultyverify rt 0 (''0x'' @ hex) = Inr True"
  using difficultyverify_nat [of 0 rt "''0x'' @ hex"] by simp

lemma mine_difficulty_zero:
  assumes "2 \<le> max_string_length rt"
    and "hashString_template data (JStr commitAt) (JNum 1) = Inr hs"
    and "eth_keccak256 rt hs = ''0x'' @ hex"
  shows "mine rt data commitAt 0 0 = Some (Inr (1, ''0x'' @ hex))"
  using assms difficultyverify_zero [OF assms(1), of hex]
  by (subst mine.simps) (simp add: js_increment_0 hashMessage_def)

lemma difficultyverify_Suc:
  assumes "difficultyverify rt (int (d + 1)) digest = Inr True"
  shows "difficultyverify rt (int d) digest = Inr True"
proof -
  from assms have fits: "2 + (d + 1) \<le> max_string_length rt"
    by (rule difficultyverify_Inr_bound)
  then have fits': "2 + d \<le> max_string_length rt" by simp
  from assms have "prefix ((''0x'' @ replicate d (CHR ''0'')) @ ''0'') digest"
    unfolding difficultyverify_nat [OF fits] by (simp add: replicate_append_same)
  then have "prefix (''0x'' @ replicate d (CHR ''0'')) digest"
    by (rule append_prefixD)
  then show ?thesis unfolding difficultyverify_nat [OF fits'] by simp
qed

text \<open>
  Claim C5 (the difficulty predicate). A digest is the string \<^verbatim>\<open>0x\<close> followed by its
  hexadecimal digits (in the second copy of the SDK, the digits alone), a string the
  engine can hold. The predicate holds for a digest if and only if its hexadecimal digits
  begin with \<open>d\<close> consecutive characters \<^verbatim>\<open>0\<close>, where \<open>d\<close> is the difficulty. It returns
  exactly that truth value when the engine can build the string of \<open>d\<close> zeros, and raises
  a RangeError when it cannot. At difficulty 0 it accepts every digest, so the search
  returns the nonce 1 at once; and a digest that passes at difficulty \<open>d + 1\<close> passes at
  difficulty \<open>d\<close>.
\<close>

theorem difficultyverify_leading_zeros:
  "(2 + length hex \<le> max_string_length rt \<longrightarrow>
      (difficultyverify rt (int d) (''0x'' @ hex) = Inr True
         \<longleftrightarrow> prefix (replicate d (CHR ''0'')) hex))
   \<and> (length hex \<le> max_string_length rt \<longrightarrow>
      (difficultyverify_part_003 rt (int d) hex = Inr True
         \<longleftrightarrow> prefix (replicate d (CHR ''0'')) hex))
   \<and> (2 + d \<le> max_string_length rt \<longrightarrow>
      difficultyverify rt (int d) (''0x'' @ hex) = Inr (prefix (replicate d (CHR ''0'')) hex))
   \<and> (max_string_length rt < 2 + d \<longrightarrow>
      difficultyverify rt (int d) (''0x'' @ hex) = Inl RangeError)
   \<and> (2 \<le> max_string_length rt \<longrightarrow> difficultyverify rt 0 (''0x'' @ hex) = Inr True)
   \<and> (2 \<le> max_string_length rt
        \<and> hashString_template data (JStr commitAt) (JNum 1) = Inr hs
        \<and> eth_keccak256 rt hs = ''0x'' @ hex'
      \<longrightarrow> mine rt data commitAt 0 0 = Some (Inr (1, ''0x'' @ hex')))
   \<and> (difficultyverify rt (int (d + 1)) digest = Inr True
      \<longrightarrow> difficultyverify rt (int d) digest = Inr True)"
proof (intro conjI impI)
  show "difficultyverify rt (int d) (''0x'' @ hex) = Inr True
      \<longleftrightarrow> prefix (replicate d (CHR ''0'')) hex"
    if "2 + length hex \<le> max_string_length rt"
    using that by (rule difficultyverify_True_iff)
  show "difficultyverify_part_003 rt (int d) hex = Inr True
      \<longleftrightarrow> prefix (replicate d (CHR ''0'')) hex"
    if "length hex \<le> max_string_length rt"
    using that by (rule difficultyverify_part_003_True_iff)
  show "difficultyverify rt (int d) (''0x'' @ hex) = Inr (prefix (replicate d (CHR ''0'')) hex)"
    if "2 + d \<le> max_string_length rt"
    using that by (simp add: difficultyverify_nat)
  show "difficultyverify rt (int d) (''0x'' @ hex) = Inl RangeError"
    if "max_string_length rt < 2 + d"
    using that by (rule difficultyverify_too_long)
  show "difficultyverify rt 0 (''0x'' @ hex) = Inr True"
    if "2 \<le> max_string_length rt"
    using that by (rule difficultyverify_zero)
  show "mine rt data commitAt 0 0 = Some (Inr (1, ''0x'' @ hex'))"
    if "2 \<le> max_string_length rt
        \<and> hashString_template data (JStr commitAt) (JNum 1) = Inr hs
        \<and> eth_keccak256 rt hs = ''0x'' @ hex'"
    using that by (blast intro: mine_difficulty_zero)
  show "difficultyverify rt (int d) digest = Inr True"
    if "difficultyverify rt (int (d + 1)) digest = Inr True"
    using that by (rule difficultyverify_Suc)
qed

lemma toy_keccak256_nonce1: "toy_keccak256 ''[object Object]2024-05-01T10:00:00.000Z1''
      = ''0x0a[object Object]2024-05-01T10:00:00.000Z1''"
  by (simp add: toy_keccak256_def toy_zeros_Cons toy_zeros_single)

theorem difficultyverify_leading_zeros_witness:
  "difficultyverify toy 2 ''0x00ab'' = Inr True
   \<and> difficultyverify_part_003 toy 2 ''00ab'' = Inr True
   \<and> difficultyverify toy 2 ''0x0abc'' = Inr False
   \<and> difficultyverify toy 536870887 ''0x00ab'' = Inl RangeError
   \<and> difficultyverify toy 0 ''0xabcd'' = Inr True
   \<and> mine toy (postTemplate (JStr ''Hello Boy'') (JArr [JStr ''news'']) (JArr []) JUndefined)
        ''2024-05-01T10:00:00.000Z'' 0 0
      = Some (Inr (1, ''0x0a[object Object]2024-05-01T10:00:00.000Z1''))
   \<and> difficultyverify toy 3 ''0x000a'' = Inr True
   \<and> difficultyverify toy 2 ''0x000a'' = Inr True"
proof -
  let ?p = "postTemplate (JStr ''Hello Boy'') (JArr [JStr ''news'']) (JArr []) JUndefined"
  let ?now = "''2024-05-01T10:00:00.000Z''"
  note lz = difficultyverify_leading_zeros
  have r2: "replicate 2 (CHR ''0'') = ''00''"
    by (simp add: numeral_2_eq_2)
  have hs: "hashString_template ?p (JStr ?now) (JNum 1)
      = Inr ''[object Object]2024-05-01T10:00:00.000Z1''"
    using hashString_template_post [of _ _ _ _ ?now 1] by (simp add: decimal_small)
  have kc: "eth_keccak256 toy ''[object Object]2024-05-01T10:00:00.000Z1''
      = ''0x'' @ ''0a[object Object]2024-05-01T10:00:00.000Z1''"
    by (simp add: toy_simps toy_keccak256_nonce1)
  have three: "difficultyverify toy (int (2 + 1)) ''0x000a'' = Inr True"
    using difficultyverify_nat [of 3 toy "''0x000a''"] by (simp add: replicate_3 toy_simps)
  have a: "difficultyverify toy 2 ''0x00ab'' = Inr True"
    using lz [THEN conjunct1, of "''00ab''" toy 2] by (simp add: toy_simps r2)
  have b: "difficultyverify_part_003 toy 2 ''00ab'' = Inr True"
    using lz [THEN conjunct2, THEN conjunct1, of "''00ab''" toy 2] by (simp add: toy_simps r2)
  have c: "difficultyverify toy 2 ''0x0abc'' = Inr False"
    using lz [THEN conjunct2, THEN conjunct2, THEN conjunct1, of 2 toy "''0abc''"]
    by (simp add: toy_simps r2)
  have d: "difficultyverify toy 536870887 ''0x00ab'' = Inl RangeError"
    using lz [THEN conjunct2, THEN conjunct2, THEN conjunct2, THEN conjunct1,
        of toy 536870887 "''00ab''"]
    by (simp add: toy_simps)
  have e: "difficultyverify toy 0 ''0xabcd'' = Inr True"
    using lz [THEN conjunct2, THEN conjunct2, THEN conjunct2, THEN conjunct2, THEN conjunct1,
        of toy "''abcd''"]
    by (simp add: toy_simps)
  have f: "mine toy ?p ?now 0 0 = Some (Inr (1, ''0x0a[object Object]2024-05-01T10:00:00.000Z1''))"
    using lz [THEN conjunct2, THEN conjunct2, THEN conjunct2, THEN conjunct2, THEN conjunct2,
        THEN conjunct1, of toy ?p ?now "''[object Object]2024-05-01T10:00:00.000Z1''"
        "''0a[object Object]2024-05-01T10:00:00.000Z1''"] hs kc
    by (simp add: toy_simps)
  have g: "difficultyverify toy 2 ''0x000a'' = Inr True"
    using lz [THEN conjunct2, THEN conjunct2, THEN conjunct2, THEN conjunct2, THEN conjunct2,
        THEN conjunct2, of toy 2 "''0x000a''"] three
    by simp
  from a b c d e f g three show ?thesis by simp
qed

section \<open>The digest and the payload\<close>

lemma commit_hashString_fields:
  "commit_hashString (commit_fields c d pk sg t n) = hashString_template d c n"
  by (simp add: commit_hashString_def get_prop_commit_fields)

lemma hashString_template_cong:
  "js_toString p1 = js_toString p2 \<Longrightarrow>
     hashString_template p1 c n = hashString_template p2 c n"
  by (simp add: hashString_template_def)

lemma mine_Some_cong:
  assumes same: "js_toString p1 = js_toString p2"
    and run: "mine rt p1 commitAt difficulty k = Some y"
  shows "mine rt p2 commitAt difficulty k = Some y"
proof -
  have "js_toString p1 = js_toString p2 \<longrightarrow> mine rt p2 commitAt difficulty k = Some y"
  proof (rule mine.raw_induct [where P = "\<lambda>rt data commitAt difficulty k y.
      js_toString data = js_toString p2 \<longrightarrow> mine rt p2 commitAt difficulty k = Some y", OF _ run],
      goal_cases)
    case (1 f rt data commitAt difficulty k y)
    show ?case
    proof
      assume eq: "js_toString data = js_toString p2"
      have t: "hashString_template p2 c n = hashString_template data c n" for c n
        using eq by (simp add: hashString_template_def)
      from 1(2) show "mine rt p2 commitAt difficulty k = Some y"
        apply (subst mine.simps)
        apply (simp only: t Let_def)
        apply (auto split: sum.splits if_splits dest: 1(1) simp: eq)
        done
    qed
  qed
  with same show ?thesis by simp
qed

lemma mine_cong:
  assumes "js_toString p1 = js_toString p2"
  shows "mine rt p1 commitAt difficulty k = mine rt p2 commitAt difficulty k"
proof (cases "mine rt p1 commitAt difficulty k")
  case None
  show ?thesis
  proof (cases "mine rt p2 commitAt difficulty k")
    case None': None
    with None show ?thesis by simp
  next
    case (Some y)
    with assms have "mine rt p1 commitAt difficulty k = Some y"
      by (intro mine_Some_cong [of p2 p1]) simp_all
    with None show ?thesis by simp
  qed
next
  case (Some y)
  with assms have "mine rt p2 commitAt difficulty k = Some y"
    by (intro mine_Some_cong [of p1 p2]) simp_all
  with Some show ?thesis by simp
qed

lemma verifyCommit_try_fields:
  "verifyCommit_try rt (commit_fields c d pk sg t n) difficulty =
     bindE (hashString_template d c n) (\<lambda>hashString.
     bindE (difficultyverify rt difficulty (hashMessage rt hashString)) (\<lambda>met.
     if \<not> met then Inr False
     else bindE (recoverPublicKey rt sg (hashMessage rt hashString)) (\<lambda>signer.
          Inr (JStr signer = pk))))"
  by (simp add: verifyCommit_try_def commit_hashString_fields get_prop_commit_fields Let_def
      cong: if_cong)

lemma createCommit_cong:
  assumes "js_toString p1 = js_toString p2"
  shows "createCommit rt now sk p1 t d = Some (Inr (commit_object now p1 pk sg t n))
     \<longleftrightarrow> createCommit rt now sk p2 t d = Some (Inr (commit_object now p2 pk sg t n))"
  unfolding createCommit_def createCommit_try_def Let_def mine_cong [OF assms]
  by (auto simp: commit_object_def bindE_def split: option.splits sum.splits prod.splits)

text \<open>
  Claim C10 (the digest does not depend on the payload). The hashed string is the
  template literal over the payload value. For any two payloads that both convert to
  \<^verbatim>\<open>[object Object]\<close>, and the same timestamp and nonce, \<^verbatim>\<open>createCommit\<close> and
  \<^verbatim>\<open>verifyCommit\<close> build the same string and so the same digest; the search finds the
  same nonce and digest, \<^verbatim>\<open>createCommit\<close> produces the same public key, signature and
  nonce, and the \<^verbatim>\<open>try\<close> block of \<^verbatim>\<open>verifyCommit\<close> (proof-of-work test and signer
  comparison) gives the same result.
\<close>

theorem digest_ignores_payload_contents:
  assumes "js_toString p1 = Inr ''[object Object]''" and "js_toString p2 = Inr ''[object Object]''"
  shows "hashString_template p1 commitAt nonce = hashString_template p2 commitAt nonce
    \<and> commit_hashString (commit_fields commitAt p1 publicKey signature type nonce)
        = commit_hashString (commit_fields commitAt p2 publicKey signature type nonce)
    \<and> mine rt p1 now difficulty k = mine rt p2 now difficulty k
    \<and> (createCommit rt now privateKey p1 type difficulty
          = Some (Inr (commit_object now p1 pk sg type n))
        \<longleftrightarrow> createCommit rt now privateKey p2 type difficulty
          = Some (Inr (commit_object now p2 pk sg type n)))
    \<and> verifyCommit_try rt (commit_fields commitAt p1 publicKey signature type nonce) difficulty
        = verifyCommit_try rt (commit_fields commitAt p2 publicKey signature type nonce) difficulty"
proof -
  from assms have same: "js_toString p1 = js_toString p2" by simp
  then have t: "hashString_template p1 c m = hashString_template p2 c m" for c m
    by (rule hashString_template_cong)
  show ?thesis
    using t mine_cong [OF same] createCommit_cong [OF same]
    by (simp add: commit_hashString_fields verifyCommit_try_fields)
qed

lemma js_toString_postTemplate: "js_toString (postTemplate c h a p) = Inr ''[object Object]''"
  by (simp add: postTemplate_def)

theorem digest_ignores_payload_contents_witness:
  "js_toString (postTemplate (JStr ''Hello Boy'') (JArr [JStr ''news'']) (JArr []) JUndefined)
     = Inr ''[object Object]''
   \<and> js_toString (postTemplate (JStr ''Bye'') (JArr []) (JArr []) (JStr ''0xabc''))
     = Inr ''[object Object]''
   \<and> commit_hashString (commit_fields (JStr ''2024-05-01T10:00:00.000Z'')
        (postTemplate (JStr ''Hello Boy'') (JArr [JStr ''news'']) (JArr []) JUndefined)
        (JStr ''pub:k1'') (JStr ''sig'') (JStr ''post'') (JNum 3))
     = commit_hashString (commit_fields (JStr ''2024-05-01T10:00:00.000Z'')
        (postTemplate (JStr ''Bye'') (JArr []) (JArr []) (JStr ''0xabc''))
        (JStr ''pub:k1'') (JStr ''sig'') (JStr ''post'') (JNum 3))
   \<and> mine toy (postTemplate (JStr ''Hello Boy'') (JArr [JStr ''news'']) (JArr []) JUndefined)
        ''2024-05-01T10:00:00.000Z'' 3 0
     = mine toy (postTemplate (JStr ''Bye'') (JArr []) (JArr []) (JStr ''0xabc''))
        ''2024-05-01T10:00:00.000Z'' 3 0"
proof -
  let ?p1 = "postTemplate (JStr ''Hello Boy'') (JArr [JStr ''news'']) (JArr []) JUndefined"
  let ?p2 = "postTemplate (JStr ''Bye'') (JArr []) (JArr []) (JStr ''0xabc'')"
  have a: "js_toString ?p1 = Inr ''[object Object]''"
    by (rule js_toString_postTemplate)
  have b: "js_toString ?p2 = Inr ''[object Object]''"
    by (rule js_toString_postTemplate)
  from digest_ignores_payload_contents [OF a b, of "JStr ''2024-05-01T10:00:00.000Z''" "JNum 3"
      "JStr ''pub:k1''" "JStr ''sig''" "JStr ''post''" toy "''2024-05-01T10:00:00.000Z''" 3 0]
  show ?thesis using a b by blast
qed

section \<open>The schema validator\<close>

lemma forEach_hashtag_callback: "forEach_list hashtag_callback hs () = Inr ()"
proof (induction hs)
  case Nil
  then show ?case by simp
next
  case (Cons h hs)
  have "\<exists>r. hashtag_callback h () = Inr (r, ())"
    by (cases h) (simp_all add: hashtag_callback_def)
  with Cons show ?case by auto
qed

lemma hasOwnProperties_post:
  "hasOwnProperties (postTemplate c h a p) [''parent'', ''content'', ''hashtags'', ''attachments'']
     = Inr True"
  by (simp add: postTemplate_def call_hasOwnProperty_def)

lemma get_prop_postTemplate:
  "get_prop (postTemplate c (JArr hs) (JArr as) p) ''hashtags'' = Inr (JArr hs)"
  "get_prop (postTemplate c (JArr hs) (JArr as) p) ''attachments'' = Inr (JArr as)"
  by (simp_all add: postTemplate_def get_prop_def default_to_def)

lemma length_gt_zero_array:
  "bindE (get_prop (JArr xs) ''length'') (js_gt_zero pos) = Inr (xs \<noteq> [])"
  by (simp add: get_prop_def js_gt_zero_def)

lemma post_branch_postTemplate:
  "post_branch rt (postTemplate c (JArr hs) (JArr as) p) =
     (if as = [] then Inr True
      else bindE (forEach_list attachment_callback as (False, False))
             (\<lambda>(allgood, allgoodx). Inr (allgood \<and> allgoodx)))"
proof -
  have len: "get_prop (JArr xs) ''length'' = Inr (JNum (int (length xs)))" for xs
    by (simp add: get_prop_def)
  have gt: "js_gt_zero pos (JNum (int (length xs))) = Inr (xs \<noteq> [])" for pos and xs :: "jsval list"
    by (simp add: js_gt_zero_def)
  have tags: "(if hs \<noteq> [] then call_forEach (JArr hs) hashtag_callback () else Inr ()) = Inr ()"
    by (simp add: call_forEach_def forEach_hashtag_callback)
  have fin: "(\<lambda>(allgood, allgoodx). if allgood = False \<or> allgoodx = False then Inr False else Inr True)
      = (\<lambda>(allgood, allgoodx). (Inr (allgood \<and> allgoodx) :: error + bool))"
    by (auto simp: fun_eq_iff)
  show ?thesis
    unfolding post_branch_def hasOwnProperties_post bindE_Inr get_prop_postTemplate len gt tags fin
    by (simp add: call_forEach_def)
qed

lemma checkdatastructure_is_post_branch: "checkdatastructure rt data type = post_branch rt data"
  by (simp add: checkdatastructure_def truthy_def)

lemma checkdatastructure_no_attachments:
  "checkdatastructure rt (postTemplate c (JArr hs) (JArr []) p) type = Inr True"
  by (simp add: checkdatastructure_is_post_branch post_branch_postTemplate)

lemma checkDataStructure_postTemplate:
  "checkDataStructure (postTemplate c (JArr hs) (JArr as) p) (JStr ''post'') =
     bindE (every_list hashtag_every_callback hs) (\<lambda>tags_ok.
       if \<not> tags_ok then Inr False else every_list attachment_every_callback as)"
  unfolding checkDataStructure_def hasOwnProperties_post
  by (simp add: get_prop_postTemplate call_every_def cong: if_cong)

lemma hasOwnProperties_meta_as_post:
  "hasOwnProperties (metaTemplate n a i w f h b) [''parent'', ''content'', ''hashtags'', ''attachments'']
     = Inr False"
  by (simp add: metaTemplate_def call_hasOwnProperty_def)

lemma hasOwnProperties_meta:
  "hasOwnProperties (metaTemplate n a i w f h b)
     [''followed'', ''hashtags'', ''bookmarks'', ''name'', ''about'', ''image'', ''website'']
     = Inr True"
  by (simp add: metaTemplate_def call_hasOwnProperty_def)

lemma checkdatastructure_metaTemplate:
  "checkdatastructure rt (metaTemplate n a i w f h b) type = Inr False"
  unfolding checkdatastructure_is_post_branch post_branch_def hasOwnProperties_meta_as_post
  by simp

lemma checkDataStructure_metaTemplate:
  "checkDataStructure (metaTemplate n a i w f (JArr hs) b) (JStr ''meta'') =
     every_list hashtag_every_callback hs"
  unfolding checkDataStructure_def hasOwnProperties_meta
  by (simp add: call_every_def metaTemplate_def get_prop_def default_to_def)

lemma hashtag_every_callback_simps:
  "hashtag_every_callback (JStr s) = Inr (length s \<le> 32 \<and> matches_alnum s)"
  "hashtag_every_callback (JNum k) = Inr False"
  by (simp_all add: hashtag_every_callback_def)

text \<open>
  Claim C6 (dispatch on the type tag). The conditions of \<^verbatim>\<open>checkdatastructure\<close> are
  assignments, so the type tag is never compared: whatever the tag, the payload is
  checked against the rules for posts. A payload with an unknown tag is accepted when it
  has the shape of a post, a well-formed meta payload is rejected, and a payload that is
  \<^verbatim>\<open>null\<close> raises a TypeError. The copy of the validator in \<^verbatim>\<open>part_003\<close>, which compares
  the tag with \<^verbatim>\<open>===\<close>, rejects the first and accepts the second.
\<close>

theorem checkdatastructure_ignores_type:
  "checkdatastructure rt data type = checkdatastructure rt data (JStr ''post'')
   \<and> checkdatastructure rt (postTemplate (JStr ''Hello Boy'') (JArr [JStr ''news'']) (JArr []) JNull)
        (JStr ''bogus'') = Inr True
   \<and> checkDataStructure (postTemplate (JStr ''Hello Boy'') (JArr [JStr ''news'']) (JArr []) JNull)
        (JStr ''bogus'') = Inr False
   \<and> checkdatastructure rt
        (metaTemplate (JStr ''Ann'') (JStr ''about'') (JStr ''img'') (JStr ''site'')
           (JArr []) (JArr [JStr ''news'']) (JArr []))
        (JStr ''meta'') = Inr False
   \<and> checkDataStructure
        (metaTemplate (JStr ''Ann'') (JStr ''about'') (JStr ''img'') (JStr ''site'')
           (JArr []) (JArr [JStr ''news'']) (JArr []))
        (JStr ''meta'') = Inr True
   \<and> checkdatastructure rt JNull (JStr ''post'') = Inl TypeError"
proof (intro conjI)
  show "checkdatastructure rt data type = checkdatastructure rt data (JStr ''post'')"
    by (simp add: checkdatastructure_is_post_branch)
  show "checkdatastructure rt (postTemplate (JStr ''Hello Boy'') (JArr [JStr ''news'']) (JArr []) JNull)
        (JStr ''bogus'') = Inr True"
    by (rule checkdatastructure_no_attachments)
  show "checkDataStructure (postTemplate (JStr ''Hello Boy'') (JArr [JStr ''news'']) (JArr []) JNull)
        (JStr ''bogus'') = Inr False"
    by (simp add: checkDataStructure_def)
  show "checkdatastructure rt
        (metaTemplate (JStr ''Ann'') (JStr ''about'') (JStr ''img'') (JStr ''site'')
           (JArr []) (JArr [JStr ''news'']) (JArr []))
        (JStr ''meta'') = Inr False"
    by (rule checkdatastructure_metaTemplate)
  show "checkDataStructure
        (metaTemplate (JStr ''Ann'') (JStr ''about'') (JStr ''img'') (JStr ''site'')
           (JArr []) (JArr [JStr ''news'']) (JArr []))
        (JStr ''meta'') = Inr True"
    by (simp add: checkDataStructure_metaTemplate hashtag_every_callback_simps matches_alnum_def
        alnum_def)
  show "checkdatastructure rt JNull (JStr ''post'') = Inl TypeError"
    by (simp add: checkdatastructure_is_post_branch post_branch_def call_hasOwnProperty_def)
qed

text \<open>
  Claim C7 (hashtag rule). In \<^verbatim>\<open>checkdatastructure\<close> the tests on a hashtag sit in the
  callback of \<^verbatim>\<open>forEach\<close>, whose \<^verbatim>\<open>return false\<close> is discarded: a post with no
  attachments is accepted whatever its hashtags are. A hashtag with a character outside
  \<^verbatim>\<open>[A-Za-z0-9]\<close>, one of 33 characters and one that is a number are all accepted; the
  copy in \<^verbatim>\<open>part_003\<close>, which uses \<^verbatim>\<open>every\<close>, rejects each of these payloads.
\<close>

theorem checkdatastructure_accepts_any_hashtags:
  "checkdatastructure rt (postTemplate content (JArr hashtags) (JArr []) parent) type = Inr True
   \<and> checkdatastructure rt
        (postTemplate (JStr ''Hello Boy'') (JArr [JStr ''not a tag!'']) (JArr []) JNull)
        (JStr ''post'') = Inr True
   \<and> checkDataStructure
        (postTemplate (JStr ''Hello Boy'') (JArr [JStr ''not a tag!'']) (JArr []) JNull)
        (JStr ''post'') = Inr False
   \<and> checkDataStructure
        (postTemplate (JStr ''Hello Boy'') (JArr [JStr ''aaaaaaaaaaaaaaaaaaaaaaaaaaaaaaaaa''])
           (JArr []) JNull)
        (JStr ''post'') = Inr False
   \<and> checkDataStructure
        (postTemplate (JStr ''Hello Boy'') (JArr [JStr ''news'', JNum 5]) (JArr []) JNull)
        (JStr ''post'') = Inr False"
proof (intro conjI)
  show "checkdatastructure rt (postTemplate content (JArr hashtags) (JArr []) parent) type = Inr True"
    by (rule checkdatastructure_no_attachments)
  show "checkdatastructure rt
        (postTemplate (JStr ''Hello Boy'') (JArr [JStr ''not a tag!'']) (JArr []) JNull)
        (JStr ''post'') = Inr True"
    by (rule checkdatastructure_no_attachments)
  show "checkDataStructure
        (postTemplate (JStr ''Hello Boy'') (JArr [JStr ''not a tag!'']) (JArr []) JNull)
        (JStr ''post'') = Inr False"
    by (simp add: checkDataStructure_postTemplate hashtag_every_callback_simps matches_alnum_def
        alnum_def)
  show "checkDataStructure
        (postTemplate (JStr ''Hello Boy'') (JArr [JStr ''aaaaaaaaaaaaaaaaaaaaaaaaaaaaaaaaa''])
           (JArr []) JNull)
        (JStr ''post'') = Inr False"
    by (simp add: checkDataStructure_postTemplate hashtag_every_callback_simps)
  show "checkDataStructure
        (postTemplate (JStr ''Hello Boy'') (JArr [JStr ''news'', JNum 5]) (JArr []) JNull)
        (JStr ''post'') = Inr False"
    by (simp add: checkDataStructure_postTemplate hashtag_every_callback_simps matches_alnum_def
        alnum_def)
qed

lemma attachment_callback_object:
  "''hasOwnProperty'' \<notin> set (map fst kvs) \<Longrightarrow>
   attachment_callback (JObj kvs) (allgood, allgoodx) =
     Inr (JUndefined,
          (allgood \<or> ''type'' \<in> set (map fst kvs),
           (allgoodx \<noteq> (''cid'' \<in> set (map fst kvs))) \<noteq> (''url'' \<in> set (map fst kvs))))"
  by (auto simp: attachment_callback_def call_hasOwnProperty_def Let_def)

lemma attachment_every_callback_object:
  "''hasOwnProperty'' \<notin> set (map fst kvs) \<Longrightarrow>
   attachment_every_callback (JObj kvs) =
     Inr (''type'' \<in> set (map fst kvs)
          \<and> map_of kvs ''type'' \<in> {Some (JStr ''image''), Some (JStr ''video''), Some (JStr ''others'')}
          \<and> (''cid'' \<in> set (map fst kvs) \<or> ''url'' \<in> set (map fst kvs)))"
  by (auto simp: attachment_every_callback_def call_hasOwnProperty_def get_prop_def
      split: option.splits)

text \<open>
  Claim C8 (attachment rule). \<^verbatim>\<open>checkdatastructure\<close> does not test each attachment: it
  records whether some attachment has a \<^verbatim>\<open>type\<close> property (of any value) and whether
  the number of \<^verbatim>\<open>cid\<close> and \<^verbatim>\<open>url\<close> properties over all attachments is odd. A post
  whose attachment has a type outside image, video and others is accepted; a post whose
  attachment has a valid type and both \<^verbatim>\<open>cid\<close> and \<^verbatim>\<open>url\<close>, and a post with two
  attachments that each have a valid type and a \<^verbatim>\<open>url\<close>, are rejected. The copy in
  \<^verbatim>\<open>part_003\<close> tests every attachment and decides each of these the other way.
\<close>

theorem checkdatastructure_attachment_rule:
  "checkdatastructure rt
     (postTemplate (JStr ''Hello Boy'') (JArr [])
        (JArr [JObj [(''type'', JStr ''bogus''), (''cid'', JStr ''Qm1'')]]) JNull)
     (JStr ''post'') = Inr True
   \<and> checkDataStructure
     (postTemplate (JStr ''Hello Boy'') (JArr [])
        (JArr [JObj [(''type'', JStr ''bogus''), (''cid'', JStr ''Qm1'')]]) JNull)
     (JStr ''post'') = Inr False
   \<and> checkdatastructure rt
     (postTemplate (JStr ''Hello Boy'') (JArr [])
        (JArr [JObj [(''type'', JStr ''image''), (''cid'', JStr ''Qm1''), (''url'', JStr ''http://a/b.png'')]])
        JNull)
     (JStr ''post'') = Inr False
   \<and> checkDataStructure
     (postTemplate (JStr ''Hello Boy'') (JArr [])
        (JArr [JObj [(''type'', JStr ''image''), (''cid'', JStr ''Qm1''), (''url'', JStr ''http://a/b.png'')]])
        JNull)
     (JStr ''post'') = Inr True
   \<and> checkdatastructure rt
     (postTemplate (JStr ''Hello Boy'') (JArr [])
        (JArr [JObj [(''type'', JStr ''image''), (''url'', JStr ''http://a/b.png'')],
               JObj [(''type'', JStr ''video''), (''url'', JStr ''http://a/c.mp4'')]])
        JNull)
     (JStr ''post'') = Inr False
   \<and> checkDataStructure
     (postTemplate (JStr ''Hello Boy'') (JArr [])
        (JArr [JObj [(''type'', JStr ''image''), (''url'', JStr ''http://a/b.png'')],
               JObj [(''type'', JStr ''video''), (''url'', JStr ''http://a/c.mp4'')]])
        JNull)
     (JStr ''post'') = Inr True"
proof (intro conjI)
  show "checkdatastructure rt
     (postTemplate (JStr ''Hello Boy'') (JArr [])
        (JArr [JObj [(''type'', JStr ''bogus''), (''cid'', JStr ''Qm1'')]]) JNull)
     (JStr ''post'') = Inr True"
    by (simp add: checkdatastructure_is_post_branch post_branch_postTemplate
        attachment_callback_object)
  show "checkDataStructure
     (postTemplate (JStr ''Hello Boy'') (JArr [])
        (JArr [JObj [(''type'', JStr ''bogus''), (''cid'', JStr ''Qm1'')]]) JNull)
     (JStr ''post'') = Inr False"
    by (simp add: checkDataStructure_postTemplate attachment_every_callback_object)
  show "checkdatastructure rt
     (postTemplate (JStr ''Hello Boy'') (JArr [])
        (JArr [JObj [(''type'', JStr ''image''), (''cid'', JStr ''Qm1''), (''url'', JStr ''http://a/b.png'')]])
        JNull)
     (JStr ''post'') = Inr False"
    by (simp add: checkdatastructure_is_post_branch post_branch_postTemplate
        attachment_callback_object)
  show "checkDataStructure
     (postTemplate (JStr ''Hello Boy'') (JArr [])
        (JArr [JObj [(''type'', JStr ''image''), (''cid'', JStr ''Qm1''), (''url'', JStr ''http://a/b.png'')]])
        JNull)
     (JStr ''post'') = Inr True"
    by (simp add: checkDataStructure_postTemplate attachment_every_callback_object)
  show "checkdatastructure rt
     (postTemplate (JStr ''Hello Boy'') (JArr [])
        (JArr [JObj [(''type'', JStr ''image''), (''url'', JStr ''http://a/b.png'')],
               JObj [(''type'', JStr ''video''), (''url'', JStr ''http://a/c.mp4'')]])
        JNull)
     (JStr ''post'') = Inr False"
    by (simp add: checkdatastructure_is_post_branch post_branch_postTemplate
        attachment_callback_object)
  show "checkDataStructure
     (postTemplate (JStr ''Hello Boy'') (JArr [])
        (JArr [JObj [(''type'', JStr ''image''), (''url'', JStr ''http://a/b.png'')],
               JObj [(''type'', JStr ''video''), (''url'', JStr ''http://a/c.mp4'')]])
        JNull)
     (JStr ''post'') = Inr True"
    by (simp add: checkDataStructure_postTemplate attachment_every_callback_object)
qed

section \<open>Creating and verifying commits\<close>

lemma hasOwnProperties_commit_fields:
  "hasOwnProperties (commit_fields c d pk sg t n)
     [''commitAt'', ''data'', ''publicKey'', ''signature'', ''type'', ''nonce''] = Inr True"
  by (simp add: commit_fields_def call_hasOwnProperty_def)

lemma verifyObject_commit_fields:
  "verifyObject rt (commit_fields c d pk sg t n) = checkdatastructure rt d t"
  unfolding verifyObject_def Object_keys_length_commit_fields hasOwnProperties_commit_fields
  by (cases "checkdatastructure rt d t") (auto simp: get_prop_commit_fields)

lemma verifyCommit_commit_fields:
  "verifyCommit rt (commit_fields c d pk sg t n) difficulty =
     bindE (checkdatastructure rt d t) (\<lambda>valid.
       if \<not> valid then Inr False
       else case verifyCommit_try rt (commit_fields c d pk sg t n) difficulty of
              Inl e \<Rightarrow> Inr False | Inr b \<Rightarrow> Inr b)"
  by (simp add: verifyCommit_def verifyObject_commit_fields)

lemma createCommit_Inr_shape:
  assumes "createCommit rt now sk data type d = Some (Inr commit)"
  shows "\<exists>pk sg n. commit = commit_fields (JStr now) data (JStr pk) (JStr sg) type (JNum (int n))"
  using assms unfolding createCommit_Some_iff commit_object_fields by blast

lemma verifyCommit_rejected_payload:
  assumes "checkdatastructure rt data type = Inr False"
    and "createCommit rt now sk data type d = Some (Inr commit)"
  shows "verifyCommit rt commit d' = Inr False"
proof -
  from createCommit_Inr_shape [OF assms(2)] obtain pk sg n where
    "commit = commit_fields (JStr now) data (JStr pk) (JStr sg) type (JNum (int n))" by blast
  with assms(1) show ?thesis by (simp add: verifyCommit_commit_fields)
qed

lemma checkdatastructure_message:
  "checkdatastructure rt (JObj [(''receiver'', r), (''message'', m)]) type = Inr False"
  unfolding checkdatastructure_is_post_branch post_branch_def
  by (simp add: call_hasOwnProperty_def)

lemma verifyObject_part_003_commit_fields:
  "verifyObject_part_003 (commit_fields c d pk sg t n) = checkDataStructure d t"
  unfolding verifyObject_part_003_def hasOwnProperties_commit_fields
  by (simp add: get_prop_commit_fields)

lemma checkDataStructure_message:
  "checkDataStructure (JObj [(''receiver'', r), (''message'', m)]) (JStr ''message'') = Inr True"
  by (simp add: checkDataStructure_def call_hasOwnProperty_def)

text \<open>
  Claim C1 (round trip). Because \<^verbatim>\<open>checkdatastructure\<close> checks every payload against
  the rules for posts, a commit that \<^verbatim>\<open>createCommit\<close> makes from a well-formed meta
  payload or message payload is rejected by \<^verbatim>\<open>verifyCommit\<close>, for every private key,
  difficulty and choice of the external primitives: the round trip returns false, not
  true.
\<close>

theorem verifyCommit_rejects_created_meta_and_message:
  "(createCommit rt now privateKey (metaTemplate name about image0 website followed hashtags bookmarks)
        (JStr ''meta'') difficulty = Some (Inr commit)
      \<longrightarrow> verifyCommit rt commit difficulty = Inr False)
   \<and> (createCommit rt now privateKey (JObj [(''receiver'', receiver), (''message'', message)])
        (JStr ''message'') difficulty = Some (Inr commit')
      \<longrightarrow> verifyCommit rt commit' difficulty = Inr False)"
proof (intro conjI impI)
  assume "createCommit rt now privateKey
      (metaTemplate name about image0 website followed hashtags bookmarks)
      (JStr ''meta'') difficulty = Some (Inr commit)"
  then show "verifyCommit rt commit difficulty = Inr False"
    by (rule verifyCommit_rejected_payload [OF checkdatastructure_metaTemplate])
next
  assume "createCommit rt now privateKey (JObj [(''receiver'', receiver), (''message'', message)])
      (JStr ''message'') difficulty = Some (Inr commit')"
  then show "verifyCommit rt commit' difficulty = Inr False"
    by (rule verifyCommit_rejected_payload [OF checkdatastructure_message])
qed

lemma hashString_template_object:
  "js_toString data = Inr ''[object Object]'' \<Longrightarrow>
   hashString_template data (JStr now) (JNum (int n)) = Inr (''[object Object]'' @ now @ decimal n)"
  by (simp add: hashString_template_def number_to_string_def)

lemma toy_keccak256_3: "toy_keccak256 (s @ ''3'') = ''0x000a'' @ s @ ''3''"
  by (simp add: toy_keccak256_def toy_zeros_def replicate_3)

lemma toy_pow_check_object:
  assumes "js_toString data = Inr ''[object Object]''" and d: "d \<le> 64"
  shows "pow_check toy data now (int d) n = Inr (d \<le> toy_zeros (decimal n))"
proof -
  from d have fits: "2 + d \<le> max_string_length toy"
    by (simp add: toy_simps)
  have z: "toy_zeros (s @ decimal n) = toy_zeros (decimal n)" for s
    by (subst decimal.simps, subst (2) decimal.simps) (simp add: toy_zeros_def)
  have "toy_keccak256 (''[object Object]'' @ now @ decimal n) =
      ''0x'' @ replicate (toy_zeros (decimal n)) (CHR ''0'') @ CHR ''a'' # (''[object Object]'' @ now @ decimal n)"
    unfolding toy_keccak256_def using z [of "''[object Object]'' @ now"] by simp
  then show ?thesis
    unfolding pow_check_def hashString_template_object [OF assms(1)]
    by (simp add: difficultyverify_nat [OF fits] hashMessage_def toy_simps prefix_zeros_then_a)
qed

lemma toy_createCommit_3:
  assumes obj: "js_toString data = Inr ''[object Object]''" and sk: "sk \<noteq> []"
  shows "createCommit toy now sk data type 3 =
     Some (Inr (commit_object now data (''pub:'' @ sk)
       (''pub:'' @ sk @ ''|0x000a0x000a[object Object]'' @ now @ ''3'') type 3))"
proof -
  have acc: "pow_check toy data now 3 3 = Inr True"
    using toy_pow_check_object [OF obj, of 3 now 3] by (simp add: toy_zeros_small)
  have rej: "\<forall>m. 1 \<le> m \<and> m < 3 \<longrightarrow> pow_check toy data now 3 m = Inr False"
  proof (intro allI impI)
    fix m :: nat
    assume "1 \<le> m \<and> m < 3"
    then have "m = Suc 0 \<or> m = 2" by arith
    then show "pow_check toy data now 3 m = Inr False"
      using toy_pow_check_object [OF obj, of 3 now m] by (auto simp: toy_zeros_small)
  qed
  have hs: "hashString_template data (JStr now) (JNum (int 3)) = Inr (''[object Object]'' @ now @ ''3'')"
    using hashString_template_object [OF obj, of now 3] by (simp add: decimal_small)
  have k2: "toy_keccak256 (''0x000a'' @ (''[object Object]'' @ now) @ ''3'')
      = ''0x000a'' @ (''0x000a'' @ ''[object Object]'' @ now) @ ''3''"
    using toy_keccak256_3 [of "''0x000a'' @ ''[object Object]'' @ now"] by simp
  have sg: "signMessage toy sk (hashMessage toy (''[object Object]'' @ now @ ''3''))
      = Inr (''pub:'' @ sk @ ''|0x000a0x000a[object Object]'' @ now @ ''3'')"
    using toy_keccak256_3 [of "''[object Object]'' @ now"] k2 sk
    by (simp add: signMessage_def hashMessage_def toy_simps toy_sign_def
        toy_publicKeyByPrivateKey_def)
  have pk: "eth_publicKeyByPrivateKey toy sk = Inr (''pub:'' @ sk)"
    using sk by (simp add: toy_simps toy_publicKeyByPrivateKey_def)
  show ?thesis
    unfolding createCommit_Some_iff
    apply (rule exI [of _ 3])
    apply (rule exI [of _ "''[object Object]'' @ now @ ''3''"])
    apply (rule exI [of _ "''pub:'' @ sk @ ''|0x000a0x000a[object Object]'' @ now @ ''3''"])
    apply (rule exI [of _ "''pub:'' @ sk"])
    apply (intro conjI)
           apply simp
          apply simp
         apply (rule acc)
        apply (rule rej)
       apply (rule hs)
      apply (rule sg)
     apply (rule pk)
    apply (rule refl)
    done
qed

lemma toy_recover_sign: "toy_recoverPublicKey (JStr (pk @ CHR ''|'' # h)) h = Inr pk"
  by (simp add: toy_recoverPublicKey_def)

lemma toy_verifyCommit_3:
  assumes obj: "js_toString data = Inr ''[object Object]''"
    and ok: "checkdatastructure toy data type = Inr True"
  shows "verifyCommit toy (commit_object now data (''pub:'' @ sk)
       (''pub:'' @ sk @ ''|0x000a0x000a[object Object]'' @ now @ ''3'') type 3) 3 = Inr True"
proof -
  define hs where "hs = ''[object Object]'' @ now @ ''3''"
  define h1 where "h1 = ''0x000a[object Object]'' @ now @ ''3''"
  define h2 where "h2 = ''0x000a0x000a[object Object]'' @ now @ ''3''"
  define pk where "pk = ''pub:'' @ sk"
  have sg: "''pub:'' @ sk @ ''|0x000a0x000a[object Object]'' @ now @ ''3'' = pk @ ''|'' @ h2"
    by (simp add: pk_def h2_def)
  have t: "hashString_template data (JStr now) (JNum (int 3)) = Inr hs"
    using hashString_template_object [OF obj, of now 3] by (simp add: decimal_small hs_def)
  have k1: "toy_keccak256 hs = h1"
    using toy_keccak256_3 [of "''[object Object]'' @ now"] by (simp add: hs_def h1_def)
  have k2: "toy_keccak256 h1 = h2"
    using toy_keccak256_3 [of "''0x000a'' @ ''[object Object]'' @ now"] by (simp add: h1_def h2_def)
  have met: "difficultyverify toy 3 h1 = Inr True"
    using difficultyverify_nat [of 3 toy h1] by (simp add: replicate_3 h1_def toy_simps)
  have rec: "recoverPublicKey toy (JStr (pk @ CHR ''|'' # h2)) h1 = Inr pk"
    by (simp add: recoverPublicKey_def hashMessage_def toy_simps k2 toy_recover_sign)
  have "verifyCommit_try toy
      (commit_fields (JStr now) data (JStr pk) (JStr (pk @ ''|'' @ h2)) type (JNum (int 3))) 3
      = Inr True"
    unfolding verifyCommit_try_fields t bindE_Inr
    by (simp add: hashMessage_def toy_simps k1 met rec)
  then show ?thesis
    unfolding commit_object_fields verifyCommit_commit_fields ok sg pk_def [symmetric]
    by simp
qed

theorem verifyCommit_rejects_created_meta_and_message_witness:
  "createCommit toy ''2024-05-01T10:00:00.000Z'' ''k1''
     (metaTemplate (JStr ''Ann'') (JStr ''about'') (JStr ''img'') (JStr ''site'')
        (JArr []) (JArr [JStr ''news'']) (JArr []))
     (JStr ''meta'') 3
   = Some (Inr (commit_object ''2024-05-01T10:00:00.000Z''
        (metaTemplate (JStr ''Ann'') (JStr ''about'') (JStr ''img'') (JStr ''site'')
           (JArr []) (JArr [JStr ''news'']) (JArr []))
        ''pub:k1'' ''pub:k1|0x000a0x000a[object Object]2024-05-01T10:00:00.000Z3''
        (JStr ''meta'') 3))
   \<and> verifyCommit toy (commit_object ''2024-05-01T10:00:00.000Z''
        (metaTemplate (JStr ''Ann'') (JStr ''about'') (JStr ''img'') (JStr ''site'')
           (JArr []) (JArr [JStr ''news'']) (JArr []))
        ''pub:k1'' ''pub:k1|0x000a0x000a[object Object]2024-05-01T10:00:00.000Z3''
        (JStr ''meta'') 3) 3 = Inr False"
proof -
  let ?meta = "metaTemplate (JStr ''Ann'') (JStr ''about'') (JStr ''img'') (JStr ''site'')
        (JArr []) (JArr [JStr ''news'']) (JArr [])"
  have obj: "js_toString ?meta = Inr ''[object Object]''"
    by (simp add: metaTemplate_def)
  have created: "createCommit toy ''2024-05-01T10:00:00.000Z'' ''k1'' ?meta (JStr ''meta'') 3
   = Some (Inr (commit_object ''2024-05-01T10:00:00.000Z'' ?meta
        ''pub:k1'' ''pub:k1|0x000a0x000a[object Object]2024-05-01T10:00:00.000Z3''
        (JStr ''meta'') 3))"
    using toy_createCommit_3 [OF obj, of "''k1''" "''2024-05-01T10:00:00.000Z''" "JStr ''meta''"]
    by simp
  from verifyCommit_rejects_created_meta_and_message [THEN conjunct1, rule_format, OF created]
    created
  show ?thesis by simp
qed

lemma hashString_template_postTemplate:
  "hashString_template (postTemplate content hashtags attachments parent) c n =
     bindE (js_toString c) (\<lambda>cs. bindE (js_toString n) (\<lambda>ns. Inr (''[object Object]'' @ cs @ ns)))"
  unfolding hashString_template_def js_toString_postTemplate by simp

lemma verifyCommit_postTemplate_data:
  "verifyCommit rt (commit_fields c (postTemplate content (JArr hs) (JArr as) parent) pk sg t n) d
   = verifyCommit rt (commit_fields c (postTemplate content' (JArr hs') (JArr as) parent') pk sg t n) d"
  unfolding verifyCommit_commit_fields verifyCommit_try_fields checkdatastructure_is_post_branch
    post_branch_postTemplate hashString_template_postTemplate
  by (rule refl)

text \<open>
  Claim C2 (tamper detection). The digest is computed from the string
  \<^verbatim>\<open>[object Object]\<close>, not from the contents of the payload, and the validator looks only
  at the shape of the payload: when a commit over a post verifies, the commit in which the
  content, the hashtags and the parent of the post have been replaced by any other values
  verifies too, with the same nonce and signature. A change of the field \<^verbatim>\<open>data\<close> is not
  detected.
\<close>

theorem verifyCommit_accepts_changed_data:
  assumes "verifyCommit rt
      (commit_fields commitAt (postTemplate content (JArr hashtags) (JArr attachments) parent)
         publicKey signature type nonce) difficulty = Inr True"
  shows "verifyCommit rt
      (commit_fields commitAt (postTemplate content' (JArr hashtags') (JArr attachments) parent')
         publicKey signature type nonce) difficulty = Inr True"
  using assms
  by (simp only: verifyCommit_postTemplate_data [of rt commitAt content hashtags attachments parent
        publicKey signature type nonce difficulty content' hashtags' parent'])

theorem verifyCommit_accepts_changed_data_witness:
  "verifyCommit toy
      (commit_fields (JStr ''2024-05-01T10:00:00.000Z'')
         (postTemplate (JStr ''Hello Boy'') (JArr [JStr ''news'']) (JArr []) JNull)
         (JStr ''pub:k1'') (JStr ''pub:k1|0x000a0x000a[object Object]2024-05-01T10:00:00.000Z3'')
         (JStr ''post'') (JNum 3)) 3 = Inr True
   \<and> verifyCommit toy
      (commit_fields (JStr ''2024-05-01T10:00:00.000Z'')
         (postTemplate (JStr ''Send all funds to Mallory'') (JArr [JStr ''urgent'']) (JArr [])
            (JStr ''0xabc''))
         (JStr ''pub:k1'') (JStr ''pub:k1|0x000a0x000a[object Object]2024-05-01T10:00:00.000Z3'')
         (JStr ''post'') (JNum 3)) 3 = Inr True"
proof -
  let ?p = "postTemplate (JStr ''Hello Boy'') (JArr [JStr ''news'']) (JArr []) JNull"
  have "verifyCommit toy (commit_object ''2024-05-01T10:00:00.000Z'' ?p (''pub:'' @ ''k1'')
       (''pub:'' @ ''k1'' @ ''|0x000a0x000a[object Object]'' @ ''2024-05-01T10:00:00.000Z'' @ ''3'')
       (JStr ''post'') 3) 3 = Inr True"
    by (rule toy_verifyCommit_3 [OF js_toString_postTemplate checkdatastructure_no_attachments])
  then have valid: "verifyCommit toy
      (commit_fields (JStr ''2024-05-01T10:00:00.000Z'') ?p
         (JStr ''pub:k1'') (JStr ''pub:k1|0x000a0x000a[object Object]2024-05-01T10:00:00.000Z3'')
         (JStr ''post'') (JNum 3)) 3 = Inr True"
    by (simp add: commit_object_fields)
  from verifyCommit_accepts_changed_data [OF valid] valid
  show ?thesis by simp
qed

text \<open>
  Claim C3 (\<^verbatim>\<open>verifyCommit\<close> never raises). \<^verbatim>\<open>verifyCommit\<close> calls \<^verbatim>\<open>verifyObject\<close>
  before it enters its \<^verbatim>\<open>try\<close> block, and \<^verbatim>\<open>verifyObject\<close> and
  \<^verbatim>\<open>checkdatastructure\<close> read properties of values they have not tested. A commit
  whose \<^verbatim>\<open>data\<close> is \<^verbatim>\<open>null\<close>, a commit whose post has a string for its
  \<^verbatim>\<open>hashtags\<close>, and a commit whose post has \<^verbatim>\<open>null\<close> among its attachments each make
  \<^verbatim>\<open>verifyCommit\<close> raise a TypeError, for every difficulty and every choice of the
  external primitives.
\<close>

theorem verifyCommit_raises_TypeError:
  "verifyCommit rt (commit_fields commitAt JNull publicKey signature type nonce) difficulty
     = Inl TypeError
   \<and> verifyCommit rt
       (commit_fields commitAt (postTemplate content (JStr ''news'') (JArr []) parent)
          publicKey signature type nonce) difficulty
     = Inl TypeError
   \<and> verifyCommit rt
       (commit_fields commitAt (postTemplate content (JArr []) (JArr [JNull]) parent)
          publicKey signature type nonce) difficulty
     = Inl TypeError"
proof (intro conjI)
  have "checkdatastructure rt JNull type = Inl TypeError"
    by (simp add: checkdatastructure_is_post_branch post_branch_def call_hasOwnProperty_def)
  then show "verifyCommit rt (commit_fields commitAt JNull publicKey signature type nonce) difficulty
     = Inl TypeError"
    by (simp add: verifyCommit_commit_fields)
  have "post_branch rt (postTemplate content (JStr ''news'') (JArr []) parent) = Inl TypeError"
    unfolding post_branch_def hasOwnProperties_post
    by (simp add: postTemplate_def get_prop_def default_to_def js_gt_zero_def call_forEach_def)
  then show "verifyCommit rt
       (commit_fields commitAt (postTemplate content (JStr ''news'') (JArr []) parent)
          publicKey signature type nonce) difficulty
     = Inl TypeError"
    by (simp add: verifyCommit_commit_fields checkdatastructure_is_post_branch)
  have "post_branch rt (postTemplate content (JArr []) (JArr [JNull]) parent) = Inl TypeError"
    by (simp add: post_branch_postTemplate attachment_callback_def call_hasOwnProperty_def)
  then show "verifyCommit rt
       (commit_fields commitAt (postTemplate content (JArr []) (JArr [JNull]) parent)
          publicKey signature type nonce) difficulty
     = Inl TypeError"
    by (simp add: verifyCommit_commit_fields checkdatastructure_is_post_branch)
qed

lemma verifyCommit_wrong_count:
  "Object_keys_length commit = Inr k \<Longrightarrow> k \<noteq> 6 \<Longrightarrow> verifyCommit rt commit difficulty = Inr False"
  by (simp add: verifyCommit_def verifyObject_def)

text \<open>
  Claim C9 (field completeness). An object whose number of own properties is not six is
  rejected with \<^verbatim>\<open>false\<close>. An object with six properties is first handed to
  \<^verbatim>\<open>checkdatastructure\<close> and only then tested for the six names: when it has an extra
  property in place of \<^verbatim>\<open>data\<close>, \<^verbatim>\<open>verifyCommit\<close> raises a TypeError instead of
  returning \<^verbatim>\<open>false\<close>. The copy of \<^verbatim>\<open>verifyObject\<close> in \<^verbatim>\<open>part_003\<close> tests the six
  names first and returns \<^verbatim>\<open>false\<close> on that object.
\<close>

theorem verifyCommit_field_completeness:
  "(Object_keys_length commit = Inr k \<and> k \<noteq> 6 \<longrightarrow> verifyCommit rt commit difficulty = Inr False)
   \<and> verifyCommit rt
       (JObj [(''commitAt'', commitAt), (''extra'', extra), (''publicKey'', publicKey),
              (''signature'', signature), (''type'', type), (''nonce'', nonce)]) difficulty
     = Inl TypeError
   \<and> verifyObject_part_003
       (JObj [(''commitAt'', commitAt), (''extra'', extra), (''publicKey'', publicKey),
              (''signature'', signature), (''type'', type), (''nonce'', nonce)])
     = Inr False"
proof (intro conjI impI)
  show "verifyCommit rt commit difficulty = Inr False"
    if "Object_keys_length commit = Inr k \<and> k \<noteq> 6"
    using that by (simp add: verifyCommit_wrong_count)
  let ?c = "JObj [(''commitAt'', commitAt), (''extra'', extra), (''publicKey'', publicKey),
              (''signature'', signature), (''type'', type), (''nonce'', nonce)]"
  have six: "Object_keys_length ?c = Inr 6"
    by (simp add: Object_keys_length_def)
  have data: "get_prop ?c ''data'' = Inr JUndefined"
    by (simp add: get_prop_def)
  have ty: "get_prop ?c ''type'' = Inr type"
    by (simp add: get_prop_def)
  have "checkdatastructure rt JUndefined type = Inl TypeError"
    by (simp add: checkdatastructure_is_post_branch post_branch_def call_hasOwnProperty_def)
  then show "verifyCommit rt ?c difficulty = Inl TypeError"
    unfolding verifyCommit_def verifyObject_def six data ty by simp
  show "verifyObject_part_003 ?c = Inr False"
    by (simp add: verifyObject_part_003_def call_hasOwnProperty_def)
qed

theorem verifyCommit_field_completeness_witness:
  "Object_keys_length
       (JObj [(''commitAt'', JStr ''2024-05-01T10:00:00.000Z''),
              (''data'', postTemplate (JStr ''Hello Boy'') (JArr [JStr ''news'']) (JArr []) JNull),
              (''publicKey'', JStr ''pub:k1''),
              (''signature'', JStr ''pub:k1|0x000a0x000a[object Object]2024-05-01T10:00:00.000Z3''),
              (''type'', JStr ''post''), (''nonce'', JNum 3), (''extra'', JNum 1)]) = Inr 7
   \<and> verifyCommit toy
       (JObj [(''commitAt'', JStr ''2024-05-01T10:00:00.000Z''),
              (''data'', postTemplate (JStr ''Hello Boy'') (JArr [JStr ''news'']) (JArr []) JNull),
              (''publicKey'', JStr ''pub:k1''),
              (''signature'', JStr ''pub:k1|0x000a0x000a[object Object]2024-05-01T10:00:00.000Z3''),
              (''type'', JStr ''post''), (''nonce'', JNum 3), (''extra'', JNum 1)]) 3 = Inr False"
proof -
  let ?c = "JObj [(''commitAt'', JStr ''2024-05-01T10:00:00.000Z''),
              (''data'', postTemplate (JStr ''Hello Boy'') (JArr [JStr ''news'']) (JArr []) JNull),
              (''publicKey'', JStr ''pub:k1''),
              (''signature'', JStr ''pub:k1|0x000a0x000a[object Object]2024-05-01T10:00:00.000Z3''),
              (''type'', JStr ''post''), (''nonce'', JNum 3), (''extra'', JNum 1)]"
  have seven: "Object_keys_length ?c = Inr 7"
    by (simp add: Object_keys_length_def)
  from verifyCommit_field_completeness [THEN conjunct1, of ?c 7 toy 3] seven
  show ?thesis by simp
qed

section \<open>What the verifier does establish\<close>

text \<open>
  Where the round trip does hold: for a post without attachments, if recovery from a
  signature made with a private key gives the public key of that key, a commit made by
  \<^verbatim>\<open>createCommit\<close> verifies at the difficulty it was mined for.
\<close>

lemma verifyCommit_created_post:
  assumes created: "createCommit rt now privateKey
      (postTemplate content (JArr hashtags) (JArr []) parent) type difficulty = Some (Inr commit)"
    and recover: "\<And>h sg. eth_sign rt privateKey h = Inr sg \<Longrightarrow>
      eth_recoverPublicKey rt (JStr sg) h = eth_publicKeyByPrivateKey rt privateKey"
  shows "verifyCommit rt commit difficulty = Inr True"
proof -
  let ?data = "postTemplate content (JArr hashtags) (JArr []) parent"
  from created obtain n hs sg pk where
    acc: "pow_check rt ?data now difficulty n = Inr True"
    and hs: "hashString_template ?data (JStr now) (JNum (int n)) = Inr hs"
    and sg: "signMessage rt privateKey (hashMessage rt hs) = Inr sg"
    and pk: "eth_publicKeyByPrivateKey rt privateKey = Inr pk"
    and c: "commit = commit_object now ?data pk sg type n"
    unfolding createCommit_Some_iff by blast
  from acc hs have met: "difficultyverify rt difficulty (hashMessage rt hs) = Inr True"
    by (simp add: pow_check_def)
  from sg have "eth_sign rt privateKey (hashMessage rt (hashMessage rt hs)) = Inr sg"
    by (simp add: signMessage_def)
  from recover [OF this] pk
  have rec: "recoverPublicKey rt (JStr sg) (hashMessage rt hs) = Inr pk"
    by (simp add: recoverPublicKey_def)
  show ?thesis
    unfolding c commit_object_fields verifyCommit_commit_fields verifyCommit_try_fields
      checkdatastructure_no_attachments hs bindE_Inr met
    by (simp add: rec)
qed

text \<open>A change of the field \<^verbatim>\<open>publicKey\<close> alone is always detected.\<close>

lemma verifyCommit_detects_publicKey:
  assumes "verifyCommit rt (commit_fields c d pk sg t n) difficulty = Inr True"
    and "pk' \<noteq> pk"
  shows "verifyCommit rt (commit_fields c d pk' sg t n) difficulty = Inr False"
  using assms unfolding verifyCommit_commit_fields verifyCommit_try_fields
  by (auto simp: bindE_def split: sum.splits if_splits)

end
